theory Spec2Isabelle
  imports Complex_Main
begin

section \<open>Data model of \<open>mbuild/lib/recipes/tiled_compound.py\<close>\<close>

text \<open>
  Python objects are referenced by address. A particle is a leaf compound: it has a
  position, the transient attribute \<open>index\<close> written by the tiling code (absent or
  \<open>None\<close> is \<open>None\<close> here) and the flag \<open>port_particle\<close>. A compound is seen through
  what the tiling code reads and writes: the enumeration of its leaf particles
  (\<open>particles(include_ports=True)\<close>), the edges of its bond graph, its box and its
  periodicity. Floating point numbers are taken as reals, \<open>np.inf\<close> as \<open>PInf\<close>.
  Names, labels and the hoisted port labels are not read by any stated property and are
  left out.
\<close>

type_synonym vec3 = "real \<times> real \<times> real"
type_synonym flags3 = "bool \<times> bool \<times> bool"
type_synonym counts3 = "int \<times> int \<times> int"
type_synonym addr = nat
type_synonym bond = "addr \<times> addr"
type_synonym kwargs = "(string \<times> nat) list"

datatype xreal = Fin real | PInf

datatype error = ValueError string | MBuildError string | IndexError

record box_t =
  lengths :: vec3
  angles :: vec3

record particle =
  pos :: vec3
  index :: "nat option"
  port_particle :: bool

record compound =
  parts :: "addr list"
  bond_graph :: "bond list"
  box :: "box_t option"
  periodicity :: flags3

record kdtree =
  kd_data :: "vec3 list"
  kd_box :: "box_t option"
  kd_periodicity :: flags3

record world =
  heap :: "addr \<Rightarrow> particle"
  next_addr :: addr
  tile :: compound
  self :: compound
  particle_kdtree :: "kdtree option"

text \<open>
  The collaborators whose code is not part of \<open>tiled_compound.py\<close> and whose result the
  tiling code only consumes: \<open>Compound.get_boundingbox\<close>,
  \<open>Compound.min_periodic_distance\<close> (it reads the box and periodicity of the compound it
  is called on) and \<open>PeriodicKDTree.query\<close> (it returns the indices of the neighbours).
\<close>

record collaborators =
  get_boundingbox :: "(addr \<Rightarrow> particle) \<Rightarrow> compound \<Rightarrow> box_t"
  min_periodic_distance :: "compound \<Rightarrow> vec3 \<Rightarrow> vec3 \<Rightarrow> real"
  kd_query :: "kdtree \<Rightarrow> vec3 \<Rightarrow> nat \<Rightarrow> nat list"

subsection \<open>Vectors and extended reals\<close>

definition vadd :: "vec3 \<Rightarrow> vec3 \<Rightarrow> vec3" where
  "vadd u v = (case u of (a, b, c) \<Rightarrow> case v of (x, y, z) \<Rightarrow> (a + x, b + y, c + z))"

definition vsub :: "vec3 \<Rightarrow> vec3 \<Rightarrow> vec3" where
  "vsub u v = (case u of (a, b, c) \<Rightarrow> case v of (x, y, z) \<Rightarrow> (a - x, b - y, c - z))"

definition vmul :: "vec3 \<Rightarrow> vec3 \<Rightarrow> vec3" where
  "vmul u v = (case u of (a, b, c) \<Rightarrow> case v of (x, y, z) \<Rightarrow> (a * x, b * y, c * z))"

definition vnorm :: "vec3 \<Rightarrow> real" where
  "vnorm u = (case u of (a, b, c) \<Rightarrow> sqrt (a * a + b * b + c * c))"

definition of_counts :: "counts3 \<Rightarrow> vec3" where
  "of_counts n = (case n of (i, j, k) \<Rightarrow> (of_int i, of_int j, of_int k))"

definition of_ijk :: "nat \<times> nat \<times> nat \<Rightarrow> vec3" where
  "of_ijk n = (case n of (i, j, k) \<Rightarrow> (of_nat i, of_nat j, of_nat k))"

fun xmin :: "xreal \<Rightarrow> xreal \<Rightarrow> xreal" where
  "xmin PInf y = y"
| "xmin x PInf = x"
| "xmin (Fin a) (Fin b) = Fin (min a b)"

fun xhalf :: "xreal \<Rightarrow> xreal" where
  "xhalf PInf = PInf"
| "xhalf (Fin a) = Fin (a / 2)"

text \<open>\<open>d > t\<close> for a finite \<open>d\<close> and a threshold that may be \<open>np.inf\<close>.\<close>

fun exceeds :: "real \<Rightarrow> xreal \<Rightarrow> bool" where
  "exceeds d PInf = False"
| "exceeds d (Fin t) = (d > t)"

section \<open>The structure container, as the tiling code uses it\<close>

definition empty_compound :: compound where
  "empty_compound =
     \<lparr>parts = [], bond_graph = [], box = None, periodicity = (False, False, False)\<rparr>"

definition particles :: "(addr \<Rightarrow> particle) \<Rightarrow> compound \<Rightarrow> bool \<Rightarrow> addr list" where
  "particles h c include_ports =
     filter (\<lambda>a. include_ports \<or> \<not> port_particle (h a)) (parts c)"

text \<open>
  Modelled from the spec: \<open>clone\<close>, the deep copy of the structure container (mbuild's
  \<open>clone\<close> is not in the source given). Every particle of the compound gets a new object
  at the next free addresses, in enumeration order, with the same attributes; the bonds
  are copied between the corresponding new objects.
\<close>

definition clone_of :: "(addr \<times> addr) list \<Rightarrow> addr \<Rightarrow> addr" where
  "clone_of m a = (case map_of m a of Some b \<Rightarrow> b | None \<Rightarrow> a)"

definition clone :: "(addr \<Rightarrow> particle) \<Rightarrow> addr \<Rightarrow> compound
    \<Rightarrow> (addr \<Rightarrow> particle) \<times> addr \<times> compound" where
  "clone h nxt c =
     (let n = length (parts c);
          new = [nxt ..< nxt + n];
          m = zip (parts c) new
      in (\<lambda>a. if nxt \<le> a \<and> a < nxt + n then h (parts c ! (a - nxt)) else h a,
          nxt + n,
          c\<lparr>parts := new,
            bond_graph := map (\<lambda>(a, b). (clone_of m a, clone_of m b)) (bond_graph c)\<rparr>))"

text \<open>
  Modelled from the spec: \<open>translate\<close>, the translation of a group of positions (every
  particle of the compound, ports included, moves by the vector).
\<close>

definition translate :: "(addr \<Rightarrow> particle) \<Rightarrow> compound \<Rightarrow> vec3 \<Rightarrow> (addr \<Rightarrow> particle)" where
  "translate h c v =
     (\<lambda>a. if a \<in> set (parts c) then (h a)\<lparr>pos := vadd (pos (h a)) v\<rparr> else h a)"

text \<open>
  Modelled from the spec: \<open>add\<close>, \<open>remove_bond\<close> and \<open>add_bond\<close> of the structure
  container. A bond is an unordered pair: removing takes the edge out in either
  orientation, adding an edge that is there leaves the graph as it is.
\<close>

definition add_child :: "compound \<Rightarrow> compound \<Rightarrow> compound" where
  "add_child s c =
     s\<lparr>parts := parts s @ parts c, bond_graph := bond_graph s @ bond_graph c\<rparr>"

definition has_bond :: "bond list \<Rightarrow> bond \<Rightarrow> bool" where
  "has_bond g e = (case e of (a, b) \<Rightarrow> (a, b) \<in> set g \<or> (b, a) \<in> set g)"

definition remove_bond :: "bond \<Rightarrow> bond list \<Rightarrow> bond list" where
  "remove_bond e g = (case e of (a, b) \<Rightarrow> filter (\<lambda>x. x \<noteq> (a, b) \<and> x \<noteq> (b, a)) g)"

definition add_bond :: "bond \<Rightarrow> bond list \<Rightarrow> bond list" where
  "add_bond e g = (if has_bond g e then g else g @ [e])"

section \<open>\<open>TiledCompound.__init__\<close>\<close>

subsection \<open>Lines 30 to 51: argument checks, box and periodicity of the result\<close>

definition all_positive :: "counts3 \<Rightarrow> bool" where
  "all_positive n = (case n of (i, j, k) \<Rightarrow> i > 0 \<and> j > 0 \<and> k > 0)"

definition all_one :: "counts3 \<Rightarrow> bool" where
  "all_one n = (case n of (i, j, k) \<Rightarrow> i = 1 \<and> j = 1 \<and> k = 1)"

definition periodic_where_tiled :: "counts3 \<Rightarrow> flags3 \<Rightarrow> bool" where
  "periodic_where_tiled n p =
     (case n of (i, j, k) \<Rightarrow> case p of (px, py, pz) \<Rightarrow>
        (i = 1 \<or> px) \<and> (j = 1 \<or> py) \<and> (k = 1 \<or> pz))"

definition ensure_box :: "collaborators \<Rightarrow> world \<Rightarrow> world \<times> box_t" where
  "ensure_box cb w =
     (case box (tile w) of
        None \<Rightarrow>
          (let b = get_boundingbox cb (heap w) (tile w)
           in (w\<lparr>tile := (tile w)\<lparr>box := Some b\<rparr>\<rparr>, b))
      | Some b \<Rightarrow> (w, b))"

definition init_checks :: "collaborators \<Rightarrow> world \<Rightarrow> counts3 \<Rightarrow> (error \<times> world) + (world \<times> box_t)" where
  "init_checks cb w0 n_tiles =
     (let w1 = w0\<lparr>self := empty_compound, particle_kdtree := None\<rparr>
      in if \<not> all_positive n_tiles
         then Inl (ValueError ''Number of tiles must be positive.'', w1)
         else
           (case ensure_box cb w1 of (w2, b) \<Rightarrow>
              if \<not> periodic_where_tiled n_tiles (periodicity (tile w2))
              then Inl (ValueError
                     ''Tile not periodic in at least one of the specified dimensions.'', w2)
              else Inr (w2\<lparr>self := (self w2)\<lparr>periodicity := periodicity (tile w2),
                             box := Some \<lparr>lengths = vmul (lengths b) (of_counts n_tiles),
                                          angles = angles b\<rparr>\<rparr>\<rparr>, b)))"

subsection \<open>Lines 63 to 73: temporary indices and replication\<close>

definition assign_indices :: "(addr \<Rightarrow> particle) \<Rightarrow> addr list \<Rightarrow> (addr \<Rightarrow> particle)" where
  "assign_indices h ps =
     fold (\<lambda>(idx, a) hh. hh(a := (hh a)\<lparr>index := Some idx\<rparr>)) (enumerate 0 ps) h"

definition grid :: "counts3 \<Rightarrow> (nat \<times> nat \<times> nat) list" where
  "grid n = (case n of (nx, ny, nz) \<Rightarrow>
     concat (map (\<lambda>i. concat (map (\<lambda>j. map (\<lambda>k. (i, j, k)) [0 ..< nat nz]) [0 ..< nat ny]))
       [0 ..< nat nx]))"

definition place_tile :: "vec3 \<Rightarrow> nat \<times> nat \<times> nat \<Rightarrow> world \<Rightarrow> world" where
  "place_tile ls ijk w =
     (case clone (heap w) (next_addr w) (tile w) of (h1, nxt, new_tile) \<Rightarrow>
        w\<lparr>heap := translate h1 new_tile (vmul (of_ijk ijk) ls),
          next_addr := nxt,
          self := add_child (self w) new_tile\<rparr>)"

definition replicate_tiles :: "world \<Rightarrow> box_t \<Rightarrow> counts3 \<Rightarrow> world" where
  "replicate_tiles w b n_tiles =
     fold (place_tile (lengths b)) (grid n_tiles)
       (w\<lparr>heap := assign_indices (heap w) (particles (heap w) (tile w) True)\<rparr>)"

subsection \<open>Lines 77 to 90: the cutoff and the bonds that were periodic in the tile\<close>

definition threshold_calc :: "flags3 \<Rightarrow> vec3 \<Rightarrow> xreal list" where
  "threshold_calc p ls =
     (case p of (px, py, pz) \<Rightarrow> case ls of (lx, ly, lz) \<Rightarrow>
        [if px then Fin lx else PInf, if py then Fin ly else PInf, if pz then Fin lz else PInf])"

definition dist_thresh :: "flags3 \<Rightarrow> vec3 \<Rightarrow> xreal" where
  "dist_thresh p ls = xhalf (fold xmin (threshold_calc p ls) PInf)"

definition periodic_bonds :: "(addr \<Rightarrow> particle) \<Rightarrow> compound \<Rightarrow> xreal
    \<Rightarrow> (nat option \<times> nat option) set" where
  "periodic_bonds h t thr =
     fold (\<lambda>(p1, p2) s.
             if exceeds (vnorm (vsub (pos (h p1)) (pos (h p2)))) thr
             then insert (index (h p1), index (h p2)) s else s)
       (bond_graph t) {}"

subsection \<open>Lines 147 to 159: \<open>_find_particle_image\<close>\<close>

text \<open>\<open>kwargs.get("k", 10)\<close>\<close>

definition kwargs_get_k :: "kwargs \<Rightarrow> nat" where
  "kwargs_get_k kw = (case map_of kw ''k'' of Some v \<Rightarrow> v | None \<Rightarrow> 10)"

text \<open>
  \<open>all_particles[idxs]\<close> is numpy indexing with an array of indices: an index that is not
  below the number of particles raises \<open>IndexError\<close>.
\<close>

definition find_particle_image :: "collaborators \<Rightarrow> (addr \<Rightarrow> particle) \<Rightarrow> kdtree
    \<Rightarrow> addr \<Rightarrow> addr \<Rightarrow> addr list \<Rightarrow> kwargs \<Rightarrow> error + addr" where
  "find_particle_image cb h tree query match all_particles kw =
     (let k = kwargs_get_k kw;
          idxs = kd_query cb tree (pos (h query)) k
      in if list_ex (\<lambda>i. length all_particles \<le> i) idxs then Inl IndexError
         else
           (case find (\<lambda>p. index (h p) = index (h match)) (map (\<lambda>i. all_particles ! i) idxs) of
              Some p \<Rightarrow> Inr p
            | None \<Rightarrow> Inl (MBuildError
                ''Unable to find matching particle image while stitching bonds.'')))"

subsection \<open>Lines 96 to 122: the scan over the bonds of the tiled structure\<close>

text \<open>
  \<open>bonds_to_remove\<close> and \<open>bonds_to_add\<close> are Python sets of pairs of particles. They are
  kept as duplicate-free lists in insertion order; the order in which Python iterates
  them is not specified, so only membership is meaningful.
\<close>

fun scan_bonds :: "collaborators \<Rightarrow> (addr \<Rightarrow> particle) \<Rightarrow> compound \<Rightarrow> kdtree \<Rightarrow> addr list
    \<Rightarrow> kwargs \<Rightarrow> (nat option \<times> nat option) set \<Rightarrow> xreal
    \<Rightarrow> bond list \<Rightarrow> bond list \<times> bond list \<Rightarrow> error + (bond list \<times> bond list)" where
  "scan_bonds cb h s tree ap kw pb thr [] acc = Inr acc"
| "scan_bonds cb h s tree ap kw pb thr ((particle1, particle2) # bs) (to_remove, to_add) =
     (if (index (h particle1), index (h particle2)) \<notin> pb
         \<and> (index (h particle2), index (h particle1)) \<notin> pb
      then scan_bonds cb h s tree ap kw pb thr bs (to_remove, to_add)
      else
        if exceeds (min_periodic_distance cb s (pos (h particle1)) (pos (h particle2))) thr
        then
          (case find_particle_image cb h tree particle1 particle2 ap kw of
             Inl e \<Rightarrow> Inl e
           | Inr image2 \<Rightarrow>
               (case find_particle_image cb h tree particle2 particle1 ap kw of
                  Inl e \<Rightarrow> Inl e
                | Inr image1 \<Rightarrow>
                    (let add1 = (if (image2, particle1) \<notin> set to_add
                                 then List.insert (particle1, image2) to_add else to_add);
                         add2 = (if (image1, particle2) \<notin> set add1
                                 then List.insert (particle2, image1) add1 else add1)
                     in scan_bonds cb h s tree ap kw pb thr bs
                          (List.insert (particle1, particle2) to_remove, add2))))
        else scan_bonds cb h s tree ap kw pb thr bs (to_remove, to_add))"

subsection \<open>Lines 75 to 133: the repair, and the whole constructor\<close>

definition build_kdtree :: "world \<Rightarrow> kdtree" where
  "build_kdtree w =
     \<lparr>kd_data = map (\<lambda>a. pos (heap w a)) (particles (heap w) (self w) False),
      kd_box = box (self w), kd_periodicity = periodicity (self w)\<rparr>"

definition clear_indices :: "(addr \<Rightarrow> particle) \<Rightarrow> addr list \<Rightarrow> (addr \<Rightarrow> particle)" where
  "clear_indices h ps = fold (\<lambda>a hh. hh(a := (hh a)\<lparr>index := None\<rparr>)) ps h"

definition repair :: "collaborators \<Rightarrow> world \<Rightarrow> box_t \<Rightarrow> kwargs \<Rightarrow> (error \<times> world) + world" where
  "repair cb w b kw =
     (let thr = dist_thresh (periodicity (tile w)) (lengths b);
          pb = periodic_bonds (heap w) (tile w) thr;
          w1 = w\<lparr>particle_kdtree := Some (build_kdtree w)\<rparr>;
          all_particles = particles (heap w1) (self w1) False
      in case scan_bonds cb (heap w1) (self w1) (build_kdtree w) all_particles kw pb thr
                (bond_graph (self w1)) ([], []) of
           Inl e \<Rightarrow> Inl (e, w1)
         | Inr (to_remove, to_add) \<Rightarrow>
             (let g1 = fold remove_bond to_remove (bond_graph (self w1));
                  g2 = fold add_bond to_add g1;
                  w2 = w1\<lparr>self := (self w1)\<lparr>bond_graph := g2\<rparr>\<rparr>
              in Inr (w2\<lparr>heap := clear_indices (heap w2) (particles (heap w2) (self w2) True),
                        particle_kdtree := None\<rparr>)))"

definition TiledCompound_init :: "collaborators \<Rightarrow> world \<Rightarrow> counts3 \<Rightarrow> kwargs
    \<Rightarrow> (error \<times> world) + world" where
  "TiledCompound_init cb w0 n_tiles kw =
     (case init_checks cb w0 n_tiles of
        Inl err \<Rightarrow> Inl err
      | Inr (w, b) \<Rightarrow>
          if all_one n_tiles
          then Inr (w\<lparr>self := add_child (self w) (tile w)\<rparr>)
          else repair cb (replicate_tiles w b n_tiles) b kw)"

text \<open>
  What a call leaves behind: the exception it raised, if any, and the world as the call
  left it (an exception leaves the objects as they were when it was raised).
\<close>

definition raised :: "(error \<times> world) + world \<Rightarrow> error option" where
  "raised r = (case r of Inl (e, w) \<Rightarrow> Some e | Inr w \<Rightarrow> None)"

definition final :: "(error \<times> world) + world \<Rightarrow> world" where
  "final r = (case r of Inl (e, w) \<Rightarrow> w | Inr w \<Rightarrow> w)"

subsection \<open>Names for what the repair reads\<close>

text \<open>
  The condition under which the scan queues a bond for removal (lines 100 to 110): the
  pair of template indices is in the Periodic Bond Set in one orientation or the other,
  and the minimum-image distance of the endpoints exceeds the cutoff.
\<close>

definition rewire_cond :: "collaborators \<Rightarrow> (addr \<Rightarrow> particle) \<Rightarrow> compound
    \<Rightarrow> (nat option \<times> nat option) set \<Rightarrow> xreal \<Rightarrow> bond \<Rightarrow> bool" where
  "rewire_cond cb h s pb thr e =
     (case e of (p1, p2) \<Rightarrow>
        ((index (h p1), index (h p2)) \<in> pb \<or> (index (h p2), index (h p1)) \<in> pb)
        \<and> exceeds (min_periodic_distance cb s (pos (h p1)) (pos (h p2))) thr)"

text \<open>
  The arguments with which \<open>repair\<close> runs the scan on the replicated world \<open>w\<close>: the
  cutoff, the Periodic Bond Set, the lookup of an image and the scan itself.
\<close>

definition repair_thresh :: "world \<Rightarrow> box_t \<Rightarrow> xreal" where
  "repair_thresh w b = dist_thresh (periodicity (tile w)) (lengths b)"

definition repair_periodic_bonds :: "world \<Rightarrow> box_t \<Rightarrow> (nat option \<times> nat option) set" where
  "repair_periodic_bonds w b = periodic_bonds (heap w) (tile w) (repair_thresh w b)"

definition needs_rewiring :: "collaborators \<Rightarrow> world \<Rightarrow> box_t \<Rightarrow> bond \<Rightarrow> bool" where
  "needs_rewiring cb w b e =
     rewire_cond cb (heap w) (self w) (repair_periodic_bonds w b) (repair_thresh w b) e"

definition image_of :: "collaborators \<Rightarrow> world \<Rightarrow> kwargs \<Rightarrow> addr \<Rightarrow> addr \<Rightarrow> error + addr" where
  "image_of cb w kw query match =
     find_particle_image cb (heap w) (build_kdtree w) query match
       (particles (heap w) (self w) False) kw"

definition repair_scan :: "collaborators \<Rightarrow> world \<Rightarrow> box_t \<Rightarrow> kwargs
    \<Rightarrow> error + (bond list \<times> bond list)" where
  "repair_scan cb w b kw =
     scan_bonds cb (heap w) (self w) (build_kdtree w) (particles (heap w) (self w) False) kw
       (repair_periodic_bonds w b) (repair_thresh w b) (bond_graph (self w)) ([], [])"

text \<open>
  Line 152: \<open>neighbors\<close>, the particles retrieved for a query (read only where every
  index of the answer is the index of a particle), and the minimum-image distance of two
  particles of the tiled structure.
\<close>

definition neighbors :: "collaborators \<Rightarrow> world \<Rightarrow> kwargs \<Rightarrow> addr \<Rightarrow> addr list" where
  "neighbors cb w kw query =
     map (\<lambda>i. particles (heap w) (self w) False ! i)
       (kd_query cb (build_kdtree w) (pos (heap w query)) (kwargs_get_k kw))"

definition endpoint_distance :: "collaborators \<Rightarrow> world \<Rightarrow> addr \<Rightarrow> addr \<Rightarrow> real" where
  "endpoint_distance cb w a c =
     min_periodic_distance cb (self w) (pos (heap w a)) (pos (heap w c))"

text \<open>Lines 119 to 122: what the scan does to \<open>bonds_to_add\<close> for one rewired bond.\<close>

definition queue_images :: "addr \<Rightarrow> addr \<Rightarrow> addr \<Rightarrow> addr \<Rightarrow> bond list \<Rightarrow> bond list" where
  "queue_images p1 p2 image2 image1 to_add =
     (let add1 = (if (image2, p1) \<notin> set to_add then List.insert (p1, image2) to_add else to_add)
      in (if (image1, p2) \<notin> set add1 then List.insert (p2, image1) add1 else add1))"

section \<open>The collaborators, as the specification describes them\<close>

text \<open>
  Modelled from the spec: the minimum-image distance of the geometric primitives
  (\<open>Compound.min_periodic_distance\<close> is not in the source given): the shortest distance
  between two points considering all translations of one point by integer multiples of
  the box lengths, along the periodic axes.
\<close>

definition mic_axis :: "bool \<Rightarrow> real \<Rightarrow> real \<Rightarrow> real" where
  "mic_axis p l d =
     (if p \<and> 0 < l
      then (let r = \<bar>d\<bar> - l * of_int \<lfloor>\<bar>d\<bar> / l\<rfloor> in min r (l - r))
      else \<bar>d\<bar>)"

definition mic_distance :: "box_t option \<Rightarrow> flags3 \<Rightarrow> vec3 \<Rightarrow> vec3 \<Rightarrow> real" where
  "mic_distance bx p u v =
     (case bx of
        None \<Rightarrow> vnorm (vsub u v)
      | Some b \<Rightarrow>
          (case lengths b of (lx, ly, lz) \<Rightarrow> case p of (px, py, pz) \<Rightarrow>
             case vsub u v of (dx, dy, dz) \<Rightarrow>
               vnorm (mic_axis px lx dx, mic_axis py ly dy, mic_axis pz lz dz)))"

text \<open>
  Modelled from the spec: the Periodic Spatial Index (\<open>PeriodicKDTree\<close> is not in the
  source given). \<open>query(point, k)\<close> returns the \<open>k\<close> nearest points under the
  minimum-image distance, in ascending order of distance, ties in the order of the
  points.
\<close>

definition spec_kd_query :: "kdtree \<Rightarrow> vec3 \<Rightarrow> nat \<Rightarrow> nat list" where
  "spec_kd_query t x k =
     take k (sort_key (\<lambda>i. mic_distance (kd_box t) (kd_periodicity t) x (kd_data t ! i))
               [0 ..< length (kd_data t)])"

text \<open>
  Modelled from the spec: the tight bounding box of all particles
  (\<open>Compound.get_boundingbox\<close> is not in the source given).
\<close>

fun extent :: "real list \<Rightarrow> real" where
  "extent [] = 0"
| "extent (x # xs) = fold max xs x - fold min xs x"

definition spec_boundingbox :: "(addr \<Rightarrow> particle) \<Rightarrow> compound \<Rightarrow> box_t" where
  "spec_boundingbox h c =
     (let ps = map (\<lambda>a. pos (h a)) (particles h c False)
      in \<lparr>lengths = (extent (map fst ps), extent (map (\<lambda>v. fst (snd v)) ps),
                     extent (map (\<lambda>v. snd (snd v)) ps)),
          angles = (90, 90, 90)\<rparr>)"

definition spec_collaborators :: collaborators where
  "spec_collaborators =
     \<lparr>get_boundingbox = spec_boundingbox,
      min_periodic_distance = (\<lambda>s. mic_distance (box s) (periodicity s)),
      kd_query = spec_kd_query\<rparr>"

text \<open>
  Modelled from the spec: the Periodic Spatial Index once more, with two conventions of
  the k-d tree under it on which the specification is silent (\<open>PeriodicKDTree\<close> is not
  in the source given). The tree looks for neighbours only closer than half the smallest
  box length over the periodic axes, and an answer with fewer than \<open>k\<close> neighbours is
  filled up to \<open>k\<close> entries with the number of points, which is the index of no point.
\<close>

fun closer :: "real \<Rightarrow> xreal \<Rightarrow> bool" where
  "closer d PInf = True"
| "closer d (Fin r) = (d < r)"

definition tree_radius :: "kdtree \<Rightarrow> xreal" where
  "tree_radius t =
     (case kd_box t of
        None \<Rightarrow> PInf
      | Some b \<Rightarrow>
          (case lengths b of (lx, ly, lz) \<Rightarrow> case kd_periodicity t of (px, py, pz) \<Rightarrow>
             xhalf (fold xmin [if px \<and> 0 < lx then Fin lx else PInf,
                               if py \<and> 0 < ly then Fin ly else PInf,
                               if pz \<and> 0 < lz then Fin lz else PInf] PInf)))"

definition padded_kd_query :: "kdtree \<Rightarrow> vec3 \<Rightarrow> nat \<Rightarrow> nat list" where
  "padded_kd_query t x k =
     (let n = length (kd_data t);
          d = (\<lambda>i. mic_distance (kd_box t) (kd_periodicity t) x (kd_data t ! i));
          found = take k (sort_key d (filter (\<lambda>i. closer (d i) (tree_radius t)) [0 ..< n]))
      in found @ replicate (k - length found) n)"

definition tree_collaborators :: collaborators where
  "tree_collaborators =
     \<lparr>get_boundingbox = spec_boundingbox,
      min_periodic_distance = (\<lambda>s. mic_distance (box s) (periodicity s)),
      kd_query = padded_kd_query\<rparr>"

section \<open>Concrete tiles\<close>

text \<open>
  Two bonded particles on the x axis, at addresses 0 and 1, in a world whose next free
  address is 2. \<open>chain_tile\<close> is the tile with the given periodicity and box;
  \<open>chain_world x0 x1 p bx\<close> puts its particles at \<open>x0\<close> and \<open>x1\<close>.
\<close>

definition chain_tile :: "flags3 \<Rightarrow> box_t option \<Rightarrow> compound" where
  "chain_tile p bx = \<lparr>parts = [0, 1], bond_graph = [(0, 1)], box = bx, periodicity = p\<rparr>"

definition chain_heap :: "real \<Rightarrow> real \<Rightarrow> addr \<Rightarrow> particle" where
  "chain_heap x0 x1 =
     (\<lambda>a. \<lparr>pos = (if a = 0 then x0 else x1, 0, 0), index = None, port_particle = False\<rparr>)"

definition chain_world :: "real \<Rightarrow> real \<Rightarrow> flags3 \<Rightarrow> box_t option \<Rightarrow> world" where
  "chain_world x0 x1 p bx =
     \<lparr>heap = chain_heap x0 x1, next_addr = 2, tile = chain_tile p bx,
      self = empty_compound, particle_kdtree = None\<rparr>"

definition cube :: "real \<Rightarrow> real \<Rightarrow> real \<Rightarrow> box_t" where
  "cube lx ly lz = \<lparr>lengths = (lx, ly, lz), angles = (90, 90, 90)\<rparr>"

text \<open>
  \<open>ring_world\<close>: a tile of length 10, periodic along x, whose bond crosses the boundary
  (the particles sit at 1 and 9). It is tiled twice along x; \<open>ring_checked\<close> is the world
  after the argument checks, \<open>ring_replicated\<close> the world after replication.
\<close>

definition ring_world :: world where
  "ring_world = chain_world 1 9 (True, False, False) (Some (cube 10 10 10))"

definition ring_checked :: world where
  "ring_checked =
     ring_world\<lparr>self := \<lparr>parts = [], bond_graph = [], box = Some (cube 20 10 10),
                           periodicity = (True, False, False)\<rparr>\<rparr>"

definition ring_replicated :: world where
  "ring_replicated = replicate_tiles ring_checked (cube 10 10 10) (2, 1, 1)"

text \<open>
  \<open>skew_world\<close>: a tile of length 21 along x, its only periodic axis, and 30 along y
  and z, with a bond from the origin to \<open>(16, 12, 0)\<close>: the bond has length 20, and
  across the boundary along x its length is 13, still above half the periodic length.
\<close>

definition skew_world :: world where
  "skew_world =
     \<lparr>heap = (\<lambda>a. \<lparr>pos = (if a = 0 then (0, 0, 0) else (16, 12, 0)), index = None,
                    port_particle = False\<rparr>),
      next_addr = 2, tile = chain_tile (True, False, False) (Some (cube 21 30 30)),
      self = empty_compound, particle_kdtree = None\<rparr>"

definition skew_checked :: world where
  "skew_checked =
     skew_world\<lparr>self := \<lparr>parts = [], bond_graph = [], box = Some (cube 42 30 30),
                           periodicity = (True, False, False)\<rparr>\<rparr>"

definition skew_replicated :: world where
  "skew_replicated = replicate_tiles skew_checked (cube 21 30 30) (2, 1, 1)"




section \<open>Properties\<close>

subsection \<open>The cutoff and the Periodic Bond Set\<close>

lemma dist_thresh_cases:
  "dist_thresh (px, py, pz) (lx, ly, lz) =
     (if \<not> px \<and> \<not> py \<and> \<not> pz then PInf
      else Fin (Min (set (map snd (filter fst [(px, lx), (py, ly), (pz, lz)]))) / 2))"
  by (auto simp: dist_thresh_def threshold_calc_def min_def)

lemma periodic_bonds_fold:
  "fold (\<lambda>(p1, p2) s.
             if exceeds (vnorm (vsub (pos (h p1)) (pos (h p2)))) thr
             then insert (index (h p1), index (h p2)) s else s) bs S
   = S \<union> {(index (h a), index (h b)) | a b.
             (a, b) \<in> set bs \<and> exceeds (vnorm (vsub (pos (h a)) (pos (h b)))) thr}"
  by (induction bs arbitrary: S) (auto split: prod.splits)

subsection \<open>Rejected arguments\<close>

lemma init_checks_not_positive:
  "\<not> all_positive n \<Longrightarrow>
     init_checks cb w0 n =
       Inl (ValueError ''Number of tiles must be positive.'',
            w0\<lparr>self := empty_compound, particle_kdtree := None\<rparr>)"
  by (simp add: init_checks_def)

lemma init_checks_not_periodic:
  "all_positive n \<Longrightarrow> \<not> periodic_where_tiled n (periodicity (tile w0)) \<Longrightarrow>
     init_checks cb w0 n =
       Inl (ValueError ''Tile not periodic in at least one of the specified dimensions.'',
            fst (ensure_box cb (w0\<lparr>self := empty_compound, particle_kdtree := None\<rparr>)))"
  by (simp add: init_checks_def ensure_box_def Let_def split: option.splits)

lemma init_Inl: "init_checks cb w0 n = Inl x \<Longrightarrow> TiledCompound_init cb w0 n kw = Inl x"
  by (simp add: TiledCompound_init_def)

text \<open>
  C5, as the code has it. A tile-count vector with a non-positive entry, or a count
  above 1 on an axis along which the template is not periodic, raises \<open>ValueError\<close> and
  no structure is built (the object under construction is still empty). With a
  non-positive count nothing has changed; on the other path the template has by then
  received its bounding box as box if it had none (lines 37 and 38 come before the
  periodicity check), and nothing else has changed.
\<close>

theorem C5_rejection:
  assumes "\<not> all_positive n \<or> \<not> periodic_where_tiled n (periodicity (tile w0))"
  shows "raised (TiledCompound_init cb w0 n kw) =
           Some (ValueError (if \<not> all_positive n then ''Number of tiles must be positive.''
                 else ''Tile not periodic in at least one of the specified dimensions.''))
       \<and> final (TiledCompound_init cb w0 n kw) =
           w0\<lparr>self := empty_compound, particle_kdtree := None,
               tile := (if all_positive n \<and> box (tile w0) = None
                        then (tile w0)\<lparr>box := Some (get_boundingbox cb (heap w0) (tile w0))\<rparr>
                        else tile w0)\<rparr>"
proof (cases "all_positive n")
  case False
  then show ?thesis
    by (simp add: init_Inl [OF init_checks_not_positive] raised_def final_def)
next
  case True
  with assms have np: "\<not> periodic_where_tiled n (periodicity (tile w0))" by simp
  show ?thesis using True
    by (simp add: init_Inl [OF init_checks_not_periodic [OF True np]] raised_def final_def
        ensure_box_def Let_def split: option.splits)
qed

text \<open>
  The instance of the specification: periodicity \<open>(False, False, False)\<close> and counts
  \<open>(2, 1, 1)\<close>, on a template that has a box.
\<close>

theorem C5_rejection_witness:
  "all_positive (2, 1, 1)
   \<and> \<not> periodic_where_tiled (2, 1, 1)
        (periodicity (tile (chain_world 1 9 (False, False, False) (Some (cube 10 10 10)))))
   \<and> raised (TiledCompound_init spec_collaborators
         (chain_world 1 9 (False, False, False) (Some (cube 10 10 10))) (2, 1, 1) []) =
       Some (ValueError ''Tile not periodic in at least one of the specified dimensions.'')
   \<and> final (TiledCompound_init spec_collaborators
         (chain_world 1 9 (False, False, False) (Some (cube 10 10 10))) (2, 1, 1) []) =
       chain_world 1 9 (False, False, False) (Some (cube 10 10 10))"
  using C5_rejection [of "(2, 1, 1)" "chain_world 1 9 (False, False, False) (Some (cube 10 10 10))"
      spec_collaborators "[]"]
  by (simp add: all_positive_def periodic_where_tiled_def chain_world_def chain_tile_def)

text \<open>
  The same call on a template without a box: the error is raised after the template's
  box has been written.
\<close>

theorem C5_mutation_counterexample:
  "raised (TiledCompound_init spec_collaborators
         (chain_world 1 9 (False, False, False) None) (2, 1, 1) []) =
       Some (ValueError ''Tile not periodic in at least one of the specified dimensions.'')
   \<and> box (tile (chain_world 1 9 (False, False, False) None)) = None
   \<and> box (tile (final (TiledCompound_init spec_collaborators
         (chain_world 1 9 (False, False, False) None) (2, 1, 1) []))) =
       Some \<lparr>lengths = (8, 0, 0), angles = (90, 90, 90)\<rparr>"
  by (simp add: TiledCompound_init_def init_checks_def all_positive_def ensure_box_def Let_def
      periodic_where_tiled_def chain_world_def chain_tile_def chain_heap_def raised_def final_def
      spec_collaborators_def spec_boundingbox_def particles_def)

subsection \<open>The scan over the bonds\<close>

lemma scan_skip:
  "\<not> rewire_cond cb h s pb thr (p1, p2) \<Longrightarrow>
     scan_bonds cb h s tree ap kw pb thr ((p1, p2) # bs) acc = scan_bonds cb h s tree ap kw pb thr bs acc"
  by (cases acc) (auto simp: rewire_cond_def)

lemma scan_fail1:
  "rewire_cond cb h s pb thr (p1, p2) \<Longrightarrow> find_particle_image cb h tree p1 p2 ap kw = Inl e \<Longrightarrow>
     scan_bonds cb h s tree ap kw pb thr ((p1, p2) # bs) acc = Inl e"
  by (cases acc) (auto simp: rewire_cond_def)

lemma scan_fail2:
  "rewire_cond cb h s pb thr (p1, p2) \<Longrightarrow> find_particle_image cb h tree p1 p2 ap kw = Inr i2 \<Longrightarrow>
   find_particle_image cb h tree p2 p1 ap kw = Inl e \<Longrightarrow>
     scan_bonds cb h s tree ap kw pb thr ((p1, p2) # bs) acc = Inl e"
  by (cases acc) (auto simp: rewire_cond_def)

lemma scan_rewire:
  "rewire_cond cb h s pb thr (p1, p2) \<Longrightarrow> find_particle_image cb h tree p1 p2 ap kw = Inr i2 \<Longrightarrow>
   find_particle_image cb h tree p2 p1 ap kw = Inr i1 \<Longrightarrow>
     scan_bonds cb h s tree ap kw pb thr ((p1, p2) # bs) (rem, add) =
     scan_bonds cb h s tree ap kw pb thr bs (List.insert (p1, p2) rem, queue_images p1 p2 i2 i1 add)"
  by (auto simp: rewire_cond_def queue_images_def Let_def)

lemma queue_images_set:
  "set (queue_images p1 p2 i2 i1 add) \<subseteq> set add \<union> {(p1, i2), (p2, i1)}"
  "set add \<subseteq> set (queue_images p1 p2 i2 i1 add)"
  "(p1, i2) \<in> set (queue_images p1 p2 i2 i1 add) \<or> (i2, p1) \<in> set (queue_images p1 p2 i2 i1 add)"
  "(p2, i1) \<in> set (queue_images p1 p2 i2 i1 add) \<or> (i1, p2) \<in> set (queue_images p1 p2 i2 i1 add)"
  by (auto simp: queue_images_def Let_def)

lemma scan_cases:
  obtains (skip) "\<not> rewire_cond cb h s pb thr (p1, p2)"
  | (fail1) e where "rewire_cond cb h s pb thr (p1, p2)" "find_particle_image cb h tree p1 p2 ap kw = Inl e"
  | (fail2) i2 e where "rewire_cond cb h s pb thr (p1, p2)" "find_particle_image cb h tree p1 p2 ap kw = Inr i2"
       "find_particle_image cb h tree p2 p1 ap kw = Inl e"
  | (rewire) i2 i1 where "rewire_cond cb h s pb thr (p1, p2)" "find_particle_image cb h tree p1 p2 ap kw = Inr i2"
       "find_particle_image cb h tree p2 p1 ap kw = Inr i1"
  by (cases "find_particle_image cb h tree p1 p2 ap kw"; cases "find_particle_image cb h tree p2 p1 ap kw") auto

lemma scan_removed:
  "scan_bonds cb h s tree ap kw pb thr bs (rem0, add0) = Inr (rem, add) \<Longrightarrow>
     set rem = set rem0 \<union> {e \<in> set bs. rewire_cond cb h s pb thr e}"
proof (induction bs arbitrary: rem0 add0)
  case Nil
  then show ?case by simp
next
  case (Cons x bs)
  obtain p1 p2 where x: "x = (p1, p2)" by (cases x)
  show ?case
  proof (cases rule: scan_cases [where cb=cb and h=h and s=s and pb=pb and thr=thr and ?p1.0=p1 and ?p2.0=p2 and tree=tree and ap=ap and kw=kw])
    case skip
    with Cons show ?thesis unfolding x by (auto simp: scan_skip simp del: scan_bonds.simps)
  next
    case (fail1 e)
    with Cons.prems show ?thesis unfolding x by (simp add: scan_fail1 del: scan_bonds.simps)
  next
    case (fail2 i2 e)
    with Cons.prems show ?thesis unfolding x by (simp add: scan_fail2 del: scan_bonds.simps)
  next
    case (rewire i2 i1)
    with Cons.prems have "scan_bonds cb h s tree ap kw pb thr bs (List.insert (p1, p2) rem0, queue_images p1 p2 i2 i1 add0) = Inr (rem, add)"
      unfolding x by (simp add: scan_rewire del: scan_bonds.simps)
    from Cons.IH [OF this] rewire(1) show ?thesis unfolding x by auto
  qed
qed

lemma scan_added_mono:
  "scan_bonds cb h s tree ap kw pb thr bs (rem0, add0) = Inr (rem, add) \<Longrightarrow> set add0 \<subseteq> set add"
proof (induction bs arbitrary: rem0 add0)
  case Nil
  then show ?case by simp
next
  case (Cons x bs)
  obtain p1 p2 where x: "x = (p1, p2)" by (cases x)
  show ?case
  proof (cases rule: scan_cases [where cb=cb and h=h and s=s and pb=pb and thr=thr and ?p1.0=p1 and ?p2.0=p2 and tree=tree and ap=ap and kw=kw])
    case skip
    with Cons show ?thesis unfolding x by (auto simp: scan_skip simp del: scan_bonds.simps)
  next
    case (fail1 e)
    with Cons.prems show ?thesis unfolding x by (simp add: scan_fail1 del: scan_bonds.simps)
  next
    case (fail2 i2 e)
    with Cons.prems show ?thesis unfolding x by (simp add: scan_fail2 del: scan_bonds.simps)
  next
    case (rewire i2 i1)
    with Cons.prems have "scan_bonds cb h s tree ap kw pb thr bs (List.insert (p1, p2) rem0, queue_images p1 p2 i2 i1 add0) = Inr (rem, add)"
      unfolding x by (simp add: scan_rewire del: scan_bonds.simps)
    from Cons.IH [OF this] queue_images_set(2) [where ?p1.0=p1 and ?p2.0=p2 and ?i2.0=i2 and ?i1.0=i1 and add=add0] show ?thesis by blast
  qed
qed

lemma scan_images_queued:
  "scan_bonds cb h s tree ap kw pb thr bs (rem0, add0) = Inr (rem, add) \<Longrightarrow>
   (p1, p2) \<in> set bs \<Longrightarrow> rewire_cond cb h s pb thr (p1, p2) \<Longrightarrow>
     \<exists>i2 i1. find_particle_image cb h tree p1 p2 ap kw = Inr i2
        \<and> find_particle_image cb h tree p2 p1 ap kw = Inr i1
        \<and> ((p1, i2) \<in> set add \<or> (i2, p1) \<in> set add)
        \<and> ((p2, i1) \<in> set add \<or> (i1, p2) \<in> set add)"
proof (induction bs arbitrary: rem0 add0)
  case Nil
  then show ?case by simp
next
  case (Cons x bs)
  obtain q1 q2 where x: "x = (q1, q2)" by (cases x)
  show ?case
  proof (cases rule: scan_cases [where cb=cb and h=h and s=s and pb=pb and thr=thr and ?p1.0=q1 and ?p2.0=q2 and tree=tree and ap=ap and kw=kw])
    case skip
    with Cons show ?thesis unfolding x by (auto simp: scan_skip simp del: scan_bonds.simps)
  next
    case (fail1 e)
    with Cons.prems show ?thesis unfolding x by (simp add: scan_fail1 del: scan_bonds.simps)
  next
    case (fail2 i2 e)
    with Cons.prems show ?thesis unfolding x by (simp add: scan_fail2 del: scan_bonds.simps)
  next
    case (rewire i2 i1)
    with Cons.prems have rest: "scan_bonds cb h s tree ap kw pb thr bs (List.insert (q1, q2) rem0, queue_images q1 q2 i2 i1 add0) = Inr (rem, add)"
      unfolding x by (simp add: scan_rewire del: scan_bonds.simps)
    show ?thesis
    proof (cases "(p1, p2) = (q1, q2)")
      case True
      from scan_added_mono [OF rest] queue_images_set(3,4) [where ?p1.0=q1 and ?p2.0=q2 and ?i2.0=i2 and ?i1.0=i1 and add=add0] rewire True
      show ?thesis by blast
    next
      case False
      with Cons.prems(2) have "(p1, p2) \<in> set bs" unfolding x by auto
      from Cons.IH [OF rest this Cons.prems(3)] show ?thesis .
    qed
  qed
qed

lemma scan_added_origin:
  "scan_bonds cb h s tree ap kw pb thr bs (rem0, add0) = Inr (rem, add) \<Longrightarrow> (a, c) \<in> set add \<Longrightarrow>
     (a, c) \<in> set add0 \<or>
     (\<exists>p. ((a, p) \<in> set bs \<and> rewire_cond cb h s pb thr (a, p) \<or> (p, a) \<in> set bs \<and> rewire_cond cb h s pb thr (p, a))
          \<and> find_particle_image cb h tree a p ap kw = Inr c)"
proof (induction bs arbitrary: rem0 add0)
  case Nil
  then show ?case by simp
next
  case (Cons x bs)
  obtain q1 q2 where x: "x = (q1, q2)" by (cases x)
  show ?case
  proof (cases rule: scan_cases [where cb=cb and h=h and s=s and pb=pb and thr=thr and ?p1.0=q1 and ?p2.0=q2 and tree=tree and ap=ap and kw=kw])
    case skip
    with Cons.prems have "scan_bonds cb h s tree ap kw pb thr bs (rem0, add0) = Inr (rem, add)"
      unfolding x by (simp add: scan_skip del: scan_bonds.simps)
    from Cons.IH [OF this Cons.prems(2)] show ?thesis unfolding x by auto
  next
    case (fail1 e)
    with Cons.prems show ?thesis unfolding x by (simp add: scan_fail1 del: scan_bonds.simps)
  next
    case (fail2 i2 e)
    with Cons.prems show ?thesis unfolding x by (simp add: scan_fail2 del: scan_bonds.simps)
  next
    case (rewire i2 i1)
    with Cons.prems have rest: "scan_bonds cb h s tree ap kw pb thr bs (List.insert (q1, q2) rem0, queue_images q1 q2 i2 i1 add0) = Inr (rem, add)"
      unfolding x by (simp add: scan_rewire del: scan_bonds.simps)
    from Cons.IH [OF rest Cons.prems(2)] queue_images_set(1) [where ?p1.0=q1 and ?p2.0=q2 and ?i2.0=i2 and ?i1.0=i1 and add=add0] rewire
    show ?thesis unfolding x by (auto; blast)
  qed
qed

lemma scan_error_origin:
  "scan_bonds cb h s tree ap kw pb thr bs acc = Inl e \<Longrightarrow>
     \<exists>p1 p2. (p1, p2) \<in> set bs \<and> rewire_cond cb h s pb thr (p1, p2)
        \<and> (find_particle_image cb h tree p1 p2 ap kw = Inl e
            \<or> find_particle_image cb h tree p2 p1 ap kw = Inl e)"
proof (induction bs arbitrary: acc)
  case Nil
  then show ?case by simp
next
  case (Cons x bs)
  obtain q1 q2 where x: "x = (q1, q2)" by (cases x)
  obtain rem0 add0 where acc: "acc = (rem0, add0)" by (cases acc)
  show ?case
  proof (cases rule: scan_cases [where cb=cb and h=h and s=s and pb=pb and thr=thr and ?p1.0=q1 and ?p2.0=q2 and tree=tree and ap=ap and kw=kw])
    case skip
    with Cons.prems have "scan_bonds cb h s tree ap kw pb thr bs acc = Inl e"
      unfolding x by (simp add: scan_skip del: scan_bonds.simps)
    from Cons.IH [OF this] show ?thesis unfolding x by auto
  next
    case (fail1 e')
    with Cons.prems show ?thesis unfolding x by (auto simp: scan_fail1 simp del: scan_bonds.simps)
  next
    case (fail2 i2 e')
    with Cons.prems show ?thesis unfolding x by (auto simp: scan_fail2 simp del: scan_bonds.simps)
  next
    case (rewire i2 i1)
    with Cons.prems have rest: "scan_bonds cb h s tree ap kw pb thr bs (List.insert (q1, q2) rem0, queue_images q1 q2 i2 i1 add0) = Inl e"
      unfolding x acc by (simp add: scan_rewire del: scan_bonds.simps)
    from Cons.IH [OF rest] show ?thesis unfolding x by auto
  qed
qed

lemma scan_error_propagates:
  "(p1, p2) \<in> set bs \<Longrightarrow> rewire_cond cb h s pb thr (p1, p2) \<Longrightarrow>
   isl (find_particle_image cb h tree p1 p2 ap kw) \<or> isl (find_particle_image cb h tree p2 p1 ap kw) \<Longrightarrow>
     isl (scan_bonds cb h s tree ap kw pb thr bs acc)"
proof (induction bs arbitrary: acc)
  case Nil
  then show ?case by simp
next
  case (Cons x bs)
  obtain q1 q2 where x: "x = (q1, q2)" by (cases x)
  obtain rem0 add0 where acc: "acc = (rem0, add0)" by (cases acc)
  show ?case
  proof (cases rule: scan_cases [where cb=cb and h=h and s=s and pb=pb and thr=thr and ?p1.0=q1 and ?p2.0=q2 and tree=tree and ap=ap and kw=kw])
    case skip
    with Cons.prems have "(p1, p2) \<in> set bs" unfolding x by auto
    from Cons.IH [OF this Cons.prems(2,3)] skip show ?thesis unfolding x by (simp add: scan_skip del: scan_bonds.simps)
  next
    case (fail1 e')
    then show ?thesis unfolding x by (simp add: scan_fail1 del: scan_bonds.simps)
  next
    case (fail2 i2 e')
    then show ?thesis unfolding x by (simp add: scan_fail2 del: scan_bonds.simps)
  next
    case (rewire i2 i1)
    with Cons.prems have "(p1, p2) \<in> set bs" unfolding x by auto
    from Cons.IH [OF this Cons.prems(2,3)] rewire show ?thesis unfolding x acc by (simp add: scan_rewire del: scan_bonds.simps)
  qed
qed

subsection \<open>Removing and adding bonds, and the shape of the repair\<close>

lemma particles_True [simp]: "particles h c True = parts c"
  by (simp add: particles_def)

lemma set_remove_bond:
  "set (remove_bond (a, b) g) = set g - {(a, b), (b, a)}"
  by (auto simp: remove_bond_def)

lemma set_fold_remove_bond:
  "set (fold remove_bond rs g) = {x \<in> set g. \<forall>(a, b) \<in> set rs. x \<noteq> (a, b) \<and> x \<noteq> (b, a)}"
proof (induction rs arbitrary: g)
  case Nil
  then show ?case by simp
next
  case (Cons r rs)
  obtain a b where r: "r = (a, b)" by (cases r)
  show ?case unfolding r by (auto simp: Cons.IH set_remove_bond)
qed

lemma fold_add_bond_mono: "set g \<subseteq> set (fold add_bond es g)"
proof (induction es arbitrary: g)
  case Nil
  then show ?case by simp
next
  case (Cons e es)
  have "set g \<subseteq> set (add_bond e g)" by (auto simp: add_bond_def)
  with Cons.IH [of "add_bond e g"] show ?case by auto
qed

lemma has_bond_mono: "set g \<subseteq> set g' \<Longrightarrow> has_bond g e \<Longrightarrow> has_bond g' e"
  by (auto simp: has_bond_def)

lemma fold_add_bond_has: "e \<in> set es \<Longrightarrow> has_bond (fold add_bond es g) e"
proof (induction es arbitrary: g)
  case Nil
  then show ?case by simp
next
  case (Cons x es)
  show ?case
  proof (cases "e = x")
    case True
    have "has_bond (add_bond x g) x" by (cases x) (auto simp: add_bond_def has_bond_def)
    from has_bond_mono [OF fold_add_bond_mono this] True show ?thesis by simp
  next
    case False
    with Cons.prems have "e \<in> set es" by simp
    from Cons.IH [OF this] show ?thesis by simp
  qed
qed

lemma fold_add_bond_origin: "x \<in> set (fold add_bond es g) \<Longrightarrow> x \<in> set g \<or> x \<in> set es"
proof (induction es arbitrary: g)
  case Nil
  then show ?case by simp
next
  case (Cons e es)
  from Cons.IH [of "add_bond e g"] Cons.prems show ?case
    by (auto simp: add_bond_def split: if_splits)
qed

lemma fold_remove_bond_gone: "e \<in> set rs \<Longrightarrow> \<not> has_bond (fold remove_bond rs g) e"
  by (cases e) (auto simp: has_bond_def set_fold_remove_bond)

lemma repair_fail:
  "repair_scan cb w b kw = Inl e \<Longrightarrow>
     repair cb w b kw = Inl (e, w\<lparr>particle_kdtree := Some (build_kdtree w)\<rparr>)"
  by (simp add: repair_def repair_scan_def repair_thresh_def repair_periodic_bonds_def Let_def
      particles_def)

lemma repair_ok:
  "repair_scan cb w b kw = Inr (rem, add) \<Longrightarrow>
     repair cb w b kw =
       Inr (w\<lparr>self := (self w)\<lparr>bond_graph :=
                  fold add_bond add (fold remove_bond rem (bond_graph (self w)))\<rparr>,
              heap := clear_indices (heap w) (parts (self w)),
              particle_kdtree := None\<rparr>)"
  by (simp add: repair_def repair_scan_def repair_thresh_def repair_periodic_bonds_def Let_def
      particles_def)

lemma init_repair:
  "init_checks cb w0 n = Inr (w, b) \<Longrightarrow> \<not> all_one n \<Longrightarrow>
     TiledCompound_init cb w0 n kw = repair cb (replicate_tiles w b n) b kw"
  by (simp add: TiledCompound_init_def)

lemma init_fast:
  "init_checks cb w0 n = Inr (w, b) \<Longrightarrow> all_one n \<Longrightarrow>
     TiledCompound_init cb w0 n kw = Inr (w\<lparr>self := add_child (self w) (tile w)\<rparr>)"
  by (simp add: TiledCompound_init_def)

text \<open>
  C8. The scan changes no bond: when it raises, the tiled structure (its bond list in
  particular) is exactly as replication left it. When it completes, the bond list is
  the replicated one with every queued removal applied first and every queued addition
  applied afterwards: after the removals no queued-for-removal bond is left, and at the
  end every queued-for-addition bond is there.
\<close>

theorem C8_bonds_changed_after_scan:
  assumes chk: "init_checks cb w0 n = Inr (w, b)" and n1: "\<not> all_one n"
  shows "(\<forall>e. raised (TiledCompound_init cb w0 n kw) = Some e \<longrightarrow>
            repair_scan cb (replicate_tiles w b n) b kw = Inl e
            \<and> self (final (TiledCompound_init cb w0 n kw)) = self (replicate_tiles w b n))
       \<and> (raised (TiledCompound_init cb w0 n kw) = None \<longrightarrow>
            (\<exists>to_remove to_add.
               repair_scan cb (replicate_tiles w b n) b kw = Inr (to_remove, to_add)
               \<and> bond_graph (self (final (TiledCompound_init cb w0 n kw))) =
                   fold add_bond to_add
                     (fold remove_bond to_remove (bond_graph (self (replicate_tiles w b n))))
               \<and> (\<forall>e \<in> set to_remove.
                     \<not> has_bond (fold remove_bond to_remove
                                   (bond_graph (self (replicate_tiles w b n)))) e)
               \<and> (\<forall>e \<in> set to_add.
                     has_bond (bond_graph (self (final (TiledCompound_init cb w0 n kw)))) e)))"
proof (cases "repair_scan cb (replicate_tiles w b n) b kw")
  case (Inl e)
  show ?thesis
    by (simp add: init_repair [OF chk n1] repair_fail [OF Inl] raised_def final_def Inl)
next
  case (Inr q)
  obtain to_remove to_add where q: "q = (to_remove, to_add)" by (cases q)
  from Inr have ok: "repair_scan cb (replicate_tiles w b n) b kw = Inr (to_remove, to_add)"
    unfolding q .
  show ?thesis
    by (simp add: init_repair [OF chk n1] repair_ok [OF ok] raised_def final_def ok
        fold_add_bond_has fold_remove_bond_gone)
qed

subsection \<open>Temporary indices\<close>

lemma assign_fold_other:
  "a \<notin> set ps \<Longrightarrow>
     fold (\<lambda>(idx, a) hh. hh(a := (hh a)\<lparr>index := Some idx\<rparr>)) (enumerate k ps) h a = h a"
  by (induction ps arbitrary: h k) auto

lemma assign_fold_pos:
  "pos (fold (\<lambda>(idx, a) hh. hh(a := (hh a)\<lparr>index := Some idx\<rparr>)) (enumerate k ps) h a) = pos (h a)
   \<and> port_particle (fold (\<lambda>(idx, a) hh. hh(a := (hh a)\<lparr>index := Some idx\<rparr>)) (enumerate k ps) h a)
       = port_particle (h a)"
  by (induction ps arbitrary: h k) auto

lemma assign_fold_index:
  "distinct ps \<Longrightarrow> j < length ps \<Longrightarrow>
     index (fold (\<lambda>(idx, a) hh. hh(a := (hh a)\<lparr>index := Some idx\<rparr>)) (enumerate k ps) h (ps ! j))
       = Some (k + j)"
proof (induction ps arbitrary: h k j)
  case Nil
  then show ?case by simp
next
  case (Cons p ps)
  let ?F = "\<lambda>(idx, a) hh. hh(a := (hh a)\<lparr>index := Some idx\<rparr>)"
  let ?h = "h(p := (h p)\<lparr>index := Some k\<rparr>)"
  have step: "fold ?F (enumerate k (p # ps)) h = fold ?F (enumerate (Suc k) ps) ?h"
    by simp
  show ?case
  proof (cases j)
    case 0
    from Cons.prems have "p \<notin> set ps" by simp
    from assign_fold_other [OF this, of "Suc k" ?h] show ?thesis
      unfolding step 0 by simp
  next
    case (Suc j')
    with Cons.prems have "distinct ps" "j' < length ps" by simp_all
    from Cons.IH [OF this, of "Suc k" ?h] show ?thesis
      unfolding step Suc by (simp only: nth_Cons_Suc add_Suc add_Suc_right)
  qed
qed

lemma assign_indices_other: "a \<notin> set ps \<Longrightarrow> assign_indices h ps a = h a"
  by (simp add: assign_indices_def assign_fold_other)

lemma assign_indices_pos [simp]: "pos (assign_indices h ps a) = pos (h a)"
  by (simp add: assign_indices_def assign_fold_pos)

lemma assign_indices_port [simp]: "port_particle (assign_indices h ps a) = port_particle (h a)"
  by (simp add: assign_indices_def assign_fold_pos)

lemma assign_indices_index:
  "distinct ps \<Longrightarrow> j < length ps \<Longrightarrow> index (assign_indices h ps (ps ! j)) = Some j"
  using assign_fold_index [of ps j 0 h] by (simp add: assign_indices_def)

lemma clear_indices_apply:
  "clear_indices h ps a = (if a \<in> set ps then (h a)\<lparr>index := None\<rparr> else h a)"
  unfolding clear_indices_def by (induction ps arbitrary: h) auto

subsection \<open>Placing the replicas\<close>

lemma place_tile_frame:
  "tile (place_tile ls ijk w) = tile w"
  "particle_kdtree (place_tile ls ijk w) = particle_kdtree w"
  "next_addr (place_tile ls ijk w) = next_addr w + length (parts (tile w))"
  "box (self (place_tile ls ijk w)) = box (self w)"
  "periodicity (self (place_tile ls ijk w)) = periodicity (self w)"
  "parts (self (place_tile ls ijk w)) =
     parts (self w) @ [next_addr w ..< next_addr w + length (parts (tile w))]"
  by (simp_all add: place_tile_def clone_def Let_def add_child_def)

lemma place_tile_heap:
  "heap (place_tile ls ijk w) a =
     (if next_addr w \<le> a \<and> a < next_addr w + length (parts (tile w))
      then (heap w (parts (tile w) ! (a - next_addr w)))
             \<lparr>pos := vadd (pos (heap w (parts (tile w) ! (a - next_addr w)))) (vmul (of_ijk ijk) ls)\<rparr>
      else heap w a)"
  by (simp add: place_tile_def clone_def Let_def translate_def)

lemma fold_place_frame:
  "tile (fold (place_tile ls) g w) = tile w
   \<and> particle_kdtree (fold (place_tile ls) g w) = particle_kdtree w
   \<and> next_addr (fold (place_tile ls) g w) = next_addr w + length g * length (parts (tile w))
   \<and> box (self (fold (place_tile ls) g w)) = box (self w)
   \<and> periodicity (self (fold (place_tile ls) g w)) = periodicity (self w)
   \<and> parts (self (fold (place_tile ls) g w)) =
       parts (self w) @ [next_addr w ..< next_addr w + length g * length (parts (tile w))]"
proof (induction g arbitrary: w)
  case Nil
  then show ?case by simp
next
  case (Cons x g)
  have "[next_addr w ..< next_addr w + length (parts (tile w))]
        @ [next_addr w + length (parts (tile w)) ..<
             next_addr w + length (parts (tile w)) + length g * length (parts (tile w))]
        = [next_addr w ..< next_addr w + (length (parts (tile w)) + length g * length (parts (tile w)))]"
    using upt_add_eq_append [of "next_addr w" "next_addr w + length (parts (tile w))"
        "length g * length (parts (tile w))"] by (simp add: add.assoc)
  with Cons.IH [of "place_tile ls x w"] show ?case
    by (simp add: place_tile_frame)
qed

lemma fold_place_old:
  "a < next_addr w \<Longrightarrow> heap (fold (place_tile ls) g w) a = heap w a"
proof (induction g arbitrary: w)
  case Nil
  then show ?case by simp
next
  case (Cons x g)
  from Cons.prems have "a < next_addr (place_tile ls x w)" by (simp add: place_tile_frame)
  from Cons.IH [OF this] Cons.prems show ?case by (simp add: place_tile_heap)
qed

lemma fold_place_new:
  assumes old: "\<forall>a \<in> set (parts (tile w)). a < next_addr w"
      and r: "r < length g" and j: "j < length (parts (tile w))"
  shows "heap (fold (place_tile ls) g w) (next_addr w + r * length (parts (tile w)) + j) =
           (heap w (parts (tile w) ! j))
             \<lparr>pos := vadd (pos (heap w (parts (tile w) ! j))) (vmul (of_ijk (g ! r)) ls)\<rparr>"
  using old r j
proof (induction g arbitrary: w r)
  case Nil
  then show ?case by simp
next
  case (Cons x g)
  let ?w = "place_tile ls x w"
  let ?P = "length (parts (tile w))"
  have tl: "tile ?w = tile w" and nx: "next_addr ?w = next_addr w + ?P"
    by (simp_all add: place_tile_frame)
  show ?case
  proof (cases r)
    case 0
    have "next_addr w + j < next_addr ?w" using nx Cons.prems by simp
    from fold_place_old [OF this, of ls g] Cons.prems(3) show ?thesis
      unfolding 0 by (simp add: place_tile_heap)
  next
    case (Suc r')
    have old': "\<forall>a \<in> set (parts (tile ?w)). a < next_addr ?w"
      using Cons.prems(1) by (auto simp: tl nx)
    have r': "r' < length g" using Cons.prems(2) Suc by simp
    have pj: "parts (tile w) ! j < next_addr w" using Cons.prems(1,3) by simp
    have j': "j < length (parts (tile ?w))" using Cons.prems(3) by (simp add: tl)
    have eq: "next_addr w + Suc r' * ?P + j = next_addr ?w + r' * ?P + j"
      by (simp add: nx)
    from Cons.IH [OF old' r' j'] pj show ?thesis
      unfolding Suc eq by (simp add: tl place_tile_heap)
  qed
qed

subsection \<open>The checked arguments, the replicated world and the grid\<close>

lemma init_checks_Inr:
  assumes "init_checks cb w0 n = Inr (w, b)"
  shows "all_positive n" "periodic_where_tiled n (periodicity (tile w0))"
    "b = (case box (tile w0) of None \<Rightarrow> get_boundingbox cb (heap w0) (tile w0) | Some b' \<Rightarrow> b')"
    "w = w0\<lparr>self := \<lparr>parts = [], bond_graph = [],
                       box = Some \<lparr>lengths = vmul (lengths b) (of_counts n), angles = angles b\<rparr>,
                       periodicity = periodicity (tile w0)\<rparr>,
             particle_kdtree := None,
             tile := (tile w0)\<lparr>box := Some b\<rparr>\<rparr>"
  using assms
  by (auto simp: init_checks_def ensure_box_def Let_def empty_compound_def
      split: if_splits option.splits)

lemma init_checks_Inr_frame:
  assumes "init_checks cb w0 n = Inr (w, b)"
  shows "heap w = heap w0" "next_addr w = next_addr w0" "parts (tile w) = parts (tile w0)"
    "bond_graph (tile w) = bond_graph (tile w0)" "periodicity (tile w) = periodicity (tile w0)"
    "box (tile w) = Some b" "parts (self w) = []" "bond_graph (self w) = []"
    "particle_kdtree w = None"
  by (simp_all add: init_checks_Inr(4) [OF assms])

lemma replicate_tiles_frame:
  "tile (replicate_tiles w b n) = tile w"
  "particle_kdtree (replicate_tiles w b n) = particle_kdtree w"
  "next_addr (replicate_tiles w b n) = next_addr w + length (grid n) * length (parts (tile w))"
  "box (self (replicate_tiles w b n)) = box (self w)"
  "periodicity (self (replicate_tiles w b n)) = periodicity (self w)"
  "parts (self (replicate_tiles w b n)) =
     parts (self w) @ [next_addr w ..< next_addr w + length (grid n) * length (parts (tile w))]"
  using fold_place_frame [of "lengths b" "grid n"
      "w\<lparr>heap := assign_indices (heap w) (parts (tile w))\<rparr>"]
  by (simp_all add: replicate_tiles_def)

lemma replicate_tiles_old:
  "a < next_addr w \<Longrightarrow>
     heap (replicate_tiles w b n) a = assign_indices (heap w) (parts (tile w)) a"
  using fold_place_old [of a "w\<lparr>heap := assign_indices (heap w) (parts (tile w))\<rparr>"
      "lengths b" "grid n"]
  by (simp add: replicate_tiles_def)

lemma replicate_tiles_new:
  assumes "\<forall>a \<in> set (parts (tile w)). a < next_addr w"
      and "r < length (grid n)" and "j < length (parts (tile w))"
  shows "heap (replicate_tiles w b n) (next_addr w + r * length (parts (tile w)) + j) =
           (assign_indices (heap w) (parts (tile w)) (parts (tile w) ! j))
             \<lparr>pos := vadd (pos (heap w (parts (tile w) ! j))) (vmul (of_ijk (grid n ! r)) (lengths b))\<rparr>"
  using fold_place_new [of "w\<lparr>heap := assign_indices (heap w) (parts (tile w))\<rparr>" r "grid n" j
      "lengths b"] assms
  by (simp add: replicate_tiles_def)

lemma length_concat_const:
  "(\<And>x. x \<in> set xs \<Longrightarrow> length (f x) = c) \<Longrightarrow> length (concat (map f xs)) = length xs * c"
  by (induction xs) auto

lemma grid_length: "length (grid (nx, ny, nz)) = nat nx * nat ny * nat nz"
  by (simp add: grid_def length_concat_const)

lemma grid_set:
  "set (grid (nx, ny, nz)) = {(i, j, k). i < nat nx \<and> j < nat ny \<and> k < nat nz}"
  by (force simp: grid_def)

lemma distinct_concat_map:
  "distinct xs \<Longrightarrow> (\<And>x. x \<in> set xs \<Longrightarrow> distinct (f x)) \<Longrightarrow>
   (\<And>x y. x \<in> set xs \<Longrightarrow> y \<in> set xs \<Longrightarrow> x \<noteq> y \<Longrightarrow> set (f x) \<inter> set (f y) = {}) \<Longrightarrow>
     distinct (concat (map f xs))"
proof (induction xs)
  case Nil
  then show ?case by simp
next
  case (Cons a xs)
  have "set (f a) \<inter> set (f y) = {}" if "y \<in> set xs" for y
    using Cons.prems(1) Cons.prems(3) [of a y] that by auto
  moreover have "distinct (concat (map f xs))"
    using Cons.prems by (intro Cons.IH) auto
  ultimately show ?case using Cons.prems(2) by auto
qed

lemma grid_distinct: "distinct (grid n)"
proof -
  obtain nx ny nz where n: "n = (nx, ny, nz)" by (cases n)
  have inner: "distinct (concat (map (\<lambda>j. map (\<lambda>k. (i, j, k)) [0 ..< nat nz]) [0 ..< nat ny]))"
    for i :: nat
    by (rule distinct_concat_map) (auto simp: distinct_map inj_on_def)
  have "distinct (concat (map (\<lambda>i. concat (map (\<lambda>j. map (\<lambda>k. (i, j, k)) [0 ..< nat nz]) [0 ..< nat ny]))
       [0 ..< nat nx]))"
    by (rule distinct_concat_map) (auto simp: inner)
  then show ?thesis unfolding n grid_def by simp
qed

lemma count_index_list:
  "length (filter (\<lambda>j. S (xs ! j)) [0 ..< length xs]) = length (filter S xs)"
proof -
  have "length (filter S (map (nth xs) [0 ..< length xs])) = length (filter (S \<circ> nth xs) [0 ..< length xs])"
    by (simp only: length_filter_map)
  then show ?thesis by (simp add: map_nth comp_def)
qed

lemma count_block:
  "(\<And>j. j < P \<Longrightarrow> Q (base + j) = R j) \<Longrightarrow>
     length (filter Q [base ..< base + P]) = length (filter R [0 ..< P])"
proof -
  assume h: "\<And>j. j < P \<Longrightarrow> Q (base + j) = R j"
  have "[base ..< base + P] = map (\<lambda>j. base + j) [0 ..< P]"
    by (simp add: map_add_upt add.commute)
  then have "length (filter Q [base ..< base + P]) = length (filter (Q \<circ> (\<lambda>j. base + j)) [0 ..< P])"
    by (simp only: length_filter_map)
  also have "filter (Q \<circ> (\<lambda>j. base + j)) [0 ..< P] = filter R [0 ..< P]"
    by (rule filter_cong) (auto simp: h)
  finally show ?thesis .
qed

lemma count_blocks:
  "(\<And>r j. r < G \<Longrightarrow> j < P \<Longrightarrow> Q (base + r * P + j) = R j) \<Longrightarrow>
     length (filter Q [base ..< base + G * P]) = G * length (filter R [0 ..< P])"
proof (induction G)
  case 0
  then show ?case by simp
next
  case (Suc G)
  have e: "base + Suc G * P = (base + G * P) + P" by simp
  have split: "[base ..< base + Suc G * P] = [base ..< base + G * P] @ [base + G * P ..< base + G * P + P]"
    unfolding e by (rule upt_add_eq_append) simp
  have blk: "length (filter Q [base + G * P ..< base + G * P + P]) = length (filter R [0 ..< P])"
    by (rule count_block) (simp add: Suc.prems)
  have "length (filter Q [base ..< base + G * P]) = G * length (filter R [0 ..< P])"
    by (rule Suc.IH) (simp add: Suc.prems)
  with blk show ?case unfolding split by simp
qed

subsection \<open>What a successful call returns\<close>

lemma init_success_cases:
  assumes "TiledCompound_init cb w0 n kw = Inr w'"
  obtains (fast) w b where "init_checks cb w0 n = Inr (w, b)" "all_one n"
      "w' = w\<lparr>self := add_child (self w) (tile w)\<rparr>"
  | (tiled) w b to_remove to_add where "init_checks cb w0 n = Inr (w, b)" "\<not> all_one n"
      "repair_scan cb (replicate_tiles w b n) b kw = Inr (to_remove, to_add)"
      "w' = (replicate_tiles w b n)
              \<lparr>self := (self (replicate_tiles w b n))\<lparr>bond_graph :=
                  fold add_bond to_add
                    (fold remove_bond to_remove (bond_graph (self (replicate_tiles w b n))))\<rparr>,
               heap := clear_indices (heap (replicate_tiles w b n))
                         (parts (self (replicate_tiles w b n))),
               particle_kdtree := None\<rparr>"
proof (cases "init_checks cb w0 n")
  case (Inl x)
  with assms show ?thesis by (simp add: init_Inl)
next
  case (Inr q)
  obtain w b where q: "q = (w, b)" by (cases q)
  have chk: "init_checks cb w0 n = Inr (w, b)" using Inr unfolding q .
  show ?thesis
  proof (cases "all_one n")
    case True
    with assms chk fast show ?thesis by (simp add: init_fast)
  next
    case False
    show ?thesis
    proof (cases "repair_scan cb (replicate_tiles w b n) b kw")
      case (Inl e)
      with assms show ?thesis by (simp add: init_repair [OF chk False] repair_fail)
    next
      case (Inr p)
      obtain to_remove to_add where p: "p = (to_remove, to_add)" by (cases p)
      have sc: "repair_scan cb (replicate_tiles w b n) b kw = Inr (to_remove, to_add)"
        using Inr unfolding p .
      from assms have "w' = (replicate_tiles w b n)
              \<lparr>self := (self (replicate_tiles w b n))\<lparr>bond_graph :=
                  fold add_bond to_add
                    (fold remove_bond to_remove (bond_graph (self (replicate_tiles w b n))))\<rparr>,
               heap := clear_indices (heap (replicate_tiles w b n))
                         (parts (self (replicate_tiles w b n))),
               particle_kdtree := None\<rparr>"
        by (simp add: init_repair [OF chk False] repair_ok [OF sc])
      with chk False sc tiled show ?thesis by blast
    qed
  qed
qed

subsection \<open>The ring tile, step by step\<close>

lemmas world_defs = chain_world_def chain_tile_def chain_heap_def cube_def empty_compound_def

lemma ring_checks:
  "init_checks spec_collaborators ring_world (2, 1, 1) = Inr (ring_checked, cube 10 10 10)"
  by (simp add: init_checks_def ring_world_def ring_checked_def world_defs all_positive_def
      ensure_box_def periodic_where_tiled_def vmul_def of_counts_def)

lemma ring_replicated_self:
  "self ring_replicated =
     \<lparr>parts = [2, 3, 4, 5], bond_graph = [(2, 3), (4, 5)], box = Some (cube 20 10 10),
      periodicity = (True, False, False)\<rparr>"
  by (simp add: ring_replicated_def ring_checked_def ring_world_def world_defs
      replicate_tiles_def grid_def place_tile_def clone_def clone_of_def add_child_def
      Let_def upt_rec)

lemma ring_replicated_tile:
  "tile ring_replicated = chain_tile (True, False, False) (Some (cube 10 10 10))"
  by (simp add: ring_replicated_def replicate_tiles_frame ring_checked_def ring_world_def
      chain_world_def)

lemma ring_replicated_heap:
  "heap ring_replicated 0 = \<lparr>pos = (1, 0, 0), index = Some 0, port_particle = False\<rparr>"
  "heap ring_replicated 1 = \<lparr>pos = (9, 0, 0), index = Some 1, port_particle = False\<rparr>"
  "heap ring_replicated 2 = \<lparr>pos = (1, 0, 0), index = Some 0, port_particle = False\<rparr>"
  "heap ring_replicated 3 = \<lparr>pos = (9, 0, 0), index = Some 1, port_particle = False\<rparr>"
  "heap ring_replicated 4 = \<lparr>pos = (11, 0, 0), index = Some 0, port_particle = False\<rparr>"
  "heap ring_replicated 5 = \<lparr>pos = (19, 0, 0), index = Some 1, port_particle = False\<rparr>"
  by (simp_all add: ring_replicated_def ring_checked_def ring_world_def world_defs
      replicate_tiles_def grid_def place_tile_def clone_def clone_of_def add_child_def
      translate_def assign_indices_def vadd_def vmul_def of_ijk_def
      Let_def upt_rec)

lemma vnorm_axis: "vnorm (x, 0, 0) = \<bar>x\<bar>"
  by (simp add: vnorm_def)

lemma mic_axis_zero: "mic_axis p l 0 = 0"
  by (simp add: mic_axis_def)

lemma mic_axis_nonneg: "0 \<le> mic_axis p l d"
proof (cases "p \<and> 0 < l")
  case True
  then have l: "0 < l" by simp
  let ?q = "of_int \<lfloor>\<bar>d\<bar> / l\<rfloor> :: real"
  have "?q \<le> \<bar>d\<bar> / l" by (rule of_int_floor_le)
  then have "l * ?q \<le> l * (\<bar>d\<bar> / l)" using l by (intro mult_left_mono) simp_all
  then have lo: "l * ?q \<le> \<bar>d\<bar>" using l by simp
  have "\<bar>d\<bar> / l < ?q + 1" by (rule real_of_int_floor_add_one_gt)
  then have "l * (\<bar>d\<bar> / l) < l * (?q + 1)" using l by (intro mult_strict_left_mono) simp_all
  then have hi: "\<bar>d\<bar> < l * ?q + l" using l by (simp add: algebra_simps)
  from lo hi True show ?thesis by (simp add: mic_axis_def Let_def)
next
  case False
  then show ?thesis by (auto simp: mic_axis_def)
qed

lemma mic_distance_x:
  "mic_distance (Some (cube lx ly lz)) (px, py, pz) (x, 0, 0) (y, 0, 0) = mic_axis px lx (x - y)"
  using mic_axis_nonneg [of px lx "x - y"]
  by (simp add: mic_distance_def cube_def vsub_def mic_axis_zero vnorm_axis)

lemma mic_axis_values:
  "mic_axis True 20 0 = 0" "mic_axis True 20 8 = 8" "mic_axis True 20 (-8) = 8"
  "mic_axis True 20 10 = 10" "mic_axis True 20 (-10) = 10"
  "mic_axis True 20 18 = 2" "mic_axis True 20 (-18) = 2"
  "mic_axis True 20 2 = 2" "mic_axis True 20 (-2) = 2"
  by (simp_all add: mic_axis_def Let_def)

lemma ring_tree:
  "build_kdtree ring_replicated =
     \<lparr>kd_data = [(1, 0, 0), (9, 0, 0), (11, 0, 0), (19, 0, 0)],
      kd_box = Some (cube 20 10 10), kd_periodicity = (True, False, False)\<rparr>"
  by (simp add: build_kdtree_def particles_def ring_replicated_self ring_replicated_heap)

lemma upt4: "[0 ..< 4] = [0, 1, 2, 3]"
  by (simp add: upt_rec)

lemma ring_query:
  "spec_kd_query (build_kdtree ring_replicated) (1, 0, 0) 10 = [0, 3, 1, 2]"
  "spec_kd_query (build_kdtree ring_replicated) (9, 0, 0) 10 = [1, 2, 0, 3]"
  "spec_kd_query (build_kdtree ring_replicated) (11, 0, 0) 10 = [2, 1, 3, 0]"
  "spec_kd_query (build_kdtree ring_replicated) (19, 0, 0) 10 = [3, 0, 2, 1]"
  "spec_kd_query (build_kdtree ring_replicated) (1, 0, 0) 1 = [0]"
  by (simp_all add: spec_kd_query_def ring_tree upt4 mic_distance_x mic_axis_values)

lemmas ring_heap = ring_replicated_heap ring_replicated_heap(2) [unfolded One_nat_def]

lemmas ring_queries = ring_query ring_query(5) [unfolded One_nat_def]

lemma ring_particles: "particles (heap ring_replicated) (self ring_replicated) False = [2, 3, 4, 5]"
  by (simp add: particles_def ring_replicated_self ring_replicated_heap)

lemma ring_images:
  "image_of spec_collaborators ring_replicated [] 2 3 = Inr 5"
  "image_of spec_collaborators ring_replicated [] 3 2 = Inr 4"
  "image_of spec_collaborators ring_replicated [] 4 5 = Inr 3"
  "image_of spec_collaborators ring_replicated [] 5 4 = Inr 2"
  by (simp_all add: image_of_def find_particle_image_def kwargs_get_k_def ring_particles
      ring_heap spec_collaborators_def ring_queries)

lemma ring_image_k1:
  "image_of spec_collaborators ring_replicated [(''k'', 1)] 2 3 =
     Inl (MBuildError ''Unable to find matching particle image while stitching bonds.'')"
  by (simp add: image_of_def find_particle_image_def kwargs_get_k_def ring_particles
      ring_heap spec_collaborators_def ring_queries)

lemma ring_thresh: "repair_thresh ring_replicated (cube 10 10 10) = Fin 5"
  by (simp add: repair_thresh_def ring_replicated_tile chain_tile_def cube_def dist_thresh_def
      threshold_calc_def)

lemma ring_periodic_bonds:
  "repair_periodic_bonds ring_replicated (cube 10 10 10) = {(Some 0, Some 1)}"
  by (simp add: repair_periodic_bonds_def ring_thresh periodic_bonds_def ring_replicated_tile
      chain_tile_def ring_heap vsub_def vnorm_axis)

lemma ring_needs_rewiring:
  "needs_rewiring spec_collaborators ring_replicated (cube 10 10 10) (2, 3)"
  "needs_rewiring spec_collaborators ring_replicated (cube 10 10 10) (4, 5)"
  by (simp_all add: needs_rewiring_def rewire_cond_def ring_thresh ring_periodic_bonds
      ring_replicated_heap ring_replicated_self spec_collaborators_def mic_distance_x
      mic_axis_values)

lemma ring_scan:
  "repair_scan spec_collaborators ring_replicated (cube 10 10 10) [] =
     Inr ([(4, 5), (2, 3)], [(3, 4), (2, 5)])"
proof -
  note r = ring_needs_rewiring [unfolded needs_rewiring_def]
  note i = ring_images [unfolded image_of_def]
  show ?thesis
    unfolding repair_scan_def ring_replicated_self [THEN arg_cong, of bond_graph, simplified]
    by (simp only: scan_rewire [OF r(1) i(1) i(2)] scan_rewire [OF r(2) i(3) i(4)]
        scan_bonds.simps(1)) (simp add: queue_images_def)
qed

lemma ring_scan_k1:
  "repair_scan spec_collaborators ring_replicated (cube 10 10 10) [(''k'', 1)] =
     Inl (MBuildError ''Unable to find matching particle image while stitching bonds.'')"
proof -
  note r = ring_needs_rewiring [unfolded needs_rewiring_def]
  note i = ring_image_k1 [unfolded image_of_def]
  show ?thesis
    unfolding repair_scan_def ring_replicated_self [THEN arg_cong, of bond_graph, simplified]
    by (simp only: scan_fail1 [OF r(1) i])
qed

subsection \<open>The constructor on the ring\<close>

lemma raised_None_final: "raised r = None \<Longrightarrow> r = Inr (final r)"
  by (cases r) (auto simp: raised_def final_def)

lemma ring_init:
  "TiledCompound_init spec_collaborators ring_world (2, 1, 1) [] =
     Inr (ring_replicated
            \<lparr>self := (self ring_replicated)\<lparr>bond_graph := [(3, 4), (2, 5)]\<rparr>,
             heap := clear_indices (heap ring_replicated) [2, 3, 4, 5],
             particle_kdtree := None\<rparr>)"
  using init_repair [OF ring_checks, of "[]"] repair_ok [OF ring_scan [unfolded ring_replicated_def]]
  by (simp add: all_one_def ring_replicated_def [symmetric] ring_replicated_self
      remove_bond_def add_bond_def has_bond_def)

lemma ring_init_k1:
  "TiledCompound_init spec_collaborators ring_world (2, 1, 1) [(''k'', 1)] =
     Inl (MBuildError ''Unable to find matching particle image while stitching bonds.'',
          ring_replicated\<lparr>particle_kdtree := Some (build_kdtree ring_replicated)\<rparr>)"
  using init_repair [OF ring_checks, of "[(''k'', 1)]"]
    repair_fail [OF ring_scan_k1 [unfolded ring_replicated_def]]
  by (simp add: all_one_def ring_replicated_def [symmetric])

subsection \<open>\<open>_find_particle_image\<close>\<close>

lemma find_particle_image_Inr:
  assumes "find_particle_image cb h tree q m ap kw = Inr p"
  shows "find (\<lambda>p. index (h p) = index (h m))
           (map (\<lambda>i. ap ! i) (kd_query cb tree (pos (h q)) (kwargs_get_k kw))) = Some p"
  using assms by (auto simp: find_particle_image_def Let_def split: if_splits option.splits)

text \<open>
  The lookup returns the first retrieved neighbour, in the order of the answer of the
  spatial index, whose template index matches. When that order is ascending in a
  distance \<open>d\<close> to the query, no retrieved neighbour with the matching template index is
  closer than the one returned.
\<close>

lemma first_match_is_nearest:
  fixes d :: "addr \<Rightarrow> real"
  assumes res: "find_particle_image cb h tree q m ap kw = Inr p"
      and asc: "sorted (map (\<lambda>i. d (ap ! i)) (kd_query cb tree (pos (h q)) (kwargs_get_k kw)))"
  shows "\<exists>j < length (kd_query cb tree (pos (h q)) (kwargs_get_k kw)).
           p = ap ! (kd_query cb tree (pos (h q)) (kwargs_get_k kw) ! j)
         \<and> index (h p) = index (h m)
         \<and> (\<forall>j' < j. index (h (ap ! (kd_query cb tree (pos (h q)) (kwargs_get_k kw) ! j')))
                        \<noteq> index (h m))
         \<and> (\<forall>i \<in> set (kd_query cb tree (pos (h q)) (kwargs_get_k kw)).
               index (h (ap ! i)) = index (h m) \<longrightarrow> d p \<le> d (ap ! i))"
proof -
  let ?idxs = "kd_query cb tree (pos (h q)) (kwargs_get_k kw)"
  from find_particle_image_Inr [OF res]
  obtain j where j: "j < length ?idxs" and m: "index (h (ap ! (?idxs ! j))) = index (h m)"
    and p: "p = ap ! (?idxs ! j)"
    and first: "\<forall>j' < j. index (h (ap ! (?idxs ! j'))) \<noteq> index (h m)"
    by (auto simp: find_Some_iff)
  have near: "d p \<le> d (ap ! i)" if i: "i \<in> set ?idxs" and mi: "index (h (ap ! i)) = index (h m)" for i
  proof -
    from i obtain j'' where j'': "j'' < length ?idxs" and e: "?idxs ! j'' = i"
      by (auto simp: in_set_conv_nth)
    from first mi e have "j \<le> j''" by (metis not_le_imp_less)
    from sorted_nth_mono [OF asc this] j'' show ?thesis by (simp add: p e j)
  qed
  from j m p first near show ?thesis by blast
qed

lemma find_particle_image_Inl:
  assumes "\<forall>i \<in> set (kd_query cb tree (pos (h q)) (kwargs_get_k kw)). i < length ap"
      and "find_particle_image cb h tree q m ap kw = Inl e"
  shows "e = MBuildError ''Unable to find matching particle image while stitching bonds.''"
    "\<forall>i \<in> set (kd_query cb tree (pos (h q)) (kwargs_get_k kw)). index (h (ap ! i)) \<noteq> index (h m)"
  using assms
  by (auto simp: find_particle_image_def Let_def list_ex_iff find_None_iff
      split: if_splits option.splits)

lemma find_particle_image_no_match:
  assumes "\<forall>i \<in> set (kd_query cb tree (pos (h q)) (kwargs_get_k kw)). i < length ap"
      and "\<forall>i \<in> set (kd_query cb tree (pos (h q)) (kwargs_get_k kw)). index (h (ap ! i)) \<noteq> index (h m)"
  shows "find_particle_image cb h tree q m ap kw =
           Inl (MBuildError ''Unable to find matching particle image while stitching bonds.'')"
proof -
  have "find (\<lambda>p. index (h p) = index (h m))
          (map (\<lambda>i. ap ! i) (kd_query cb tree (pos (h q)) (kwargs_get_k kw))) = None"
    using assms(2) by (auto simp: find_None_iff)
  with assms(1) show ?thesis
    by (auto simp: find_particle_image_def Let_def list_ex_iff)
qed

lemma find_particle_image_cong:
  "kd_query cb' tree (pos (h q)) (kwargs_get_k kw) = kd_query cb tree (pos (h q)) (kwargs_get_k kw) \<Longrightarrow>
     find_particle_image cb' h tree q m ap kw = find_particle_image cb h tree q m ap kw"
  by (simp add: find_particle_image_def)

lemma repair_scan_error_origin:
  assumes "repair_scan cb w b kw = Inl e"
  shows "\<exists>p1 p2. (p1, p2) \<in> set (bond_graph (self w)) \<and> needs_rewiring cb w b (p1, p2)
           \<and> (image_of cb w kw p1 p2 = Inl e \<or> image_of cb w kw p2 p1 = Inl e)"
  using scan_error_origin [OF assms [unfolded repair_scan_def]]
  by (simp add: needs_rewiring_def image_of_def)

lemma repair_scan_error_propagates:
  assumes "(p1, p2) \<in> set (bond_graph (self w))" "needs_rewiring cb w b (p1, p2)"
      "isl (image_of cb w kw p1 p2) \<or> isl (image_of cb w kw p2 p1)"
  shows "isl (repair_scan cb w b kw)"
  unfolding repair_scan_def
  by (rule scan_error_propagates [where ?p1.0 = p1 and ?p2.0 = p2])
     (use assms in \<open>simp_all add: needs_rewiring_def image_of_def\<close>)

lemma init_aborts:
  assumes chk: "init_checks cb w0 n = Inr (w, b)" and n1: "\<not> all_one n"
      and bond: "(p1, p2) \<in> set (bond_graph (self (replicate_tiles w b n)))"
      and need: "needs_rewiring cb (replicate_tiles w b n) b (p1, p2)"
      and fail: "isl (image_of cb (replicate_tiles w b n) kw p1 p2)
                 \<or> isl (image_of cb (replicate_tiles w b n) kw p2 p1)"
  shows "\<exists>e a c. raised (TiledCompound_init cb w0 n kw) = Some e
           \<and> image_of cb (replicate_tiles w b n) kw a c = Inl e"
proof -
  from repair_scan_error_propagates [OF bond need fail]
  obtain e where e: "repair_scan cb (replicate_tiles w b n) b kw = Inl e"
    by (cases "repair_scan cb (replicate_tiles w b n) b kw") auto
  have "raised (TiledCompound_init cb w0 n kw) = Some e"
    by (simp add: init_repair [OF chk n1] repair_fail [OF e] raised_def)
  with repair_scan_error_origin [OF e] show ?thesis by blast
qed

lemma spec_collaborators_sel:
  "kd_query spec_collaborators = spec_kd_query"
  "min_periodic_distance spec_collaborators = (\<lambda>s. mic_distance (box s) (periodicity s))"
  "get_boundingbox spec_collaborators = spec_boundingbox"
  by (simp_all add: spec_collaborators_def)

lemmas ring_k1 = ring_image_k1 [unfolded One_nat_def] ring_init_k1 [unfolded One_nat_def]
  ring_image_k1 [unfolded image_of_def ring_particles One_nat_def]

text \<open>
  When every index of the answer is the index of a particle, the lookup returns a
  retrieved neighbour with the template index of \<open>match\<close>, or raises \<open>MBuildError\<close> when
  none has it. It reads the spatial index through one query with \<open>k\<close>, and a failed
  lookup for a bond that the scan rewires makes the constructor raise.
\<close>

lemma find_particle_image_in_range:
  assumes inrange: "\<forall>i \<in> set (kd_query cb tree (pos (h q)) (kwargs_get_k kw)). i < length ap"
  shows "kwargs_get_k [] = 10 \<and> kwargs_get_k ((''k'', k) # kw') = k
       \<and> (case find_particle_image cb h tree q m ap kw of
            Inr p \<Rightarrow>
              p \<in> set (map (\<lambda>i. ap ! i) (kd_query cb tree (pos (h q)) (kwargs_get_k kw)))
              \<and> index (h p) = index (h m)
          | Inl e \<Rightarrow>
              e = MBuildError ''Unable to find matching particle image while stitching bonds.''
              \<and> (\<forall>i \<in> set (kd_query cb tree (pos (h q)) (kwargs_get_k kw)).
                    index (h (ap ! i)) \<noteq> index (h m)))
       \<and> (kd_query cb' tree (pos (h q)) (kwargs_get_k kw)
            = kd_query cb tree (pos (h q)) (kwargs_get_k kw) \<longrightarrow>
          find_particle_image cb' h tree q m ap kw = find_particle_image cb h tree q m ap kw)
       \<and> (init_checks cb w0 n = Inr (w, b) \<and> \<not> all_one n
          \<and> (p1, p2) \<in> set (bond_graph (self (replicate_tiles w b n)))
          \<and> needs_rewiring cb (replicate_tiles w b n) b (p1, p2)
          \<and> (isl (image_of cb (replicate_tiles w b n) kw1 p1 p2)
             \<or> isl (image_of cb (replicate_tiles w b n) kw1 p2 p1)) \<longrightarrow>
          (\<exists>e a c. raised (TiledCompound_init cb w0 n kw1) = Some e
             \<and> image_of cb (replicate_tiles w b n) kw1 a c = Inl e))"
proof -
  have k: "kwargs_get_k [] = 10 \<and> kwargs_get_k ((''k'', k) # kw') = k"
    by (simp add: kwargs_get_k_def)
  have f: "(case find_particle_image cb h tree q m ap kw of
            Inr p \<Rightarrow>
              p \<in> set (map (\<lambda>i. ap ! i) (kd_query cb tree (pos (h q)) (kwargs_get_k kw)))
              \<and> index (h p) = index (h m)
          | Inl e \<Rightarrow>
              e = MBuildError ''Unable to find matching particle image while stitching bonds.''
              \<and> (\<forall>i \<in> set (kd_query cb tree (pos (h q)) (kwargs_get_k kw)).
                    index (h (ap ! i)) \<noteq> index (h m)))"
  proof (cases "find_particle_image cb h tree q m ap kw")
    case (Inl e)
    from find_particle_image_Inl [OF inrange Inl] show ?thesis by (simp add: Inl)
  next
    case (Inr p)
    from find_particle_image_Inr [OF Inr] have "p \<in> set (map (\<lambda>i. ap ! i) (kd_query cb tree (pos (h q)) (kwargs_get_k kw)))"
      "index (h p) = index (h m)"
      by (auto simp: find_Some_iff)
    then show ?thesis by (simp add: Inr)
  qed
  from k f find_particle_image_cong init_aborts show ?thesis by blast
qed

subsection \<open>The bond list during and after the scan\<close>

text \<open>
  The ring with \<open>k = 1\<close>: the scan raises and the bond list is the replicated one.
\<close>

theorem C8_bonds_changed_after_scan_witness:
  "init_checks spec_collaborators ring_world (2, 1, 1) = Inr (ring_checked, cube 10 10 10)
   \<and> \<not> all_one (2, 1, 1)
   \<and> raised (TiledCompound_init spec_collaborators ring_world (2, 1, 1) [(''k'', 1)]) =
       Some (MBuildError ''Unable to find matching particle image while stitching bonds.'')
   \<and> repair_scan spec_collaborators (replicate_tiles ring_checked (cube 10 10 10) (2, 1, 1))
        (cube 10 10 10) [(''k'', 1)] =
       Inl (MBuildError ''Unable to find matching particle image while stitching bonds.'')
   \<and> self (final (TiledCompound_init spec_collaborators ring_world (2, 1, 1) [(''k'', 1)])) =
       self (replicate_tiles ring_checked (cube 10 10 10) (2, 1, 1))
   \<and> bond_graph (self (final (TiledCompound_init spec_collaborators ring_world (2, 1, 1)
        [(''k'', 1)]))) = [(2, 3), (4, 5)]"
  using C8_bonds_changed_after_scan [OF ring_checks, of "[(''k'', 1)]"]
  by (simp add: all_one_def ring_checks ring_k1 raised_def final_def
      ring_replicated_def [symmetric] ring_replicated_self)

lemma rewire_cond_sym:
  assumes "\<forall>s u v. min_periodic_distance cb s u v = min_periodic_distance cb s v u"
  shows "rewire_cond cb h s pb thr (a, b) = rewire_cond cb h s pb thr (b, a)"
proof -
  have "min_periodic_distance cb s (pos (h a)) (pos (h b))
      = min_periodic_distance cb s (pos (h b)) (pos (h a))"
    using assms by blast
  then show ?thesis unfolding rewire_cond_def by auto
qed

lemma repair_scan_removed:
  "repair_scan cb w b kw = Inr (to_remove, to_add) \<Longrightarrow>
     set to_remove = {e \<in> set (bond_graph (self w)). needs_rewiring cb w b e}"
  using scan_removed [of cb "heap w" "self w" "build_kdtree w" "particles (heap w) (self w) False"
      kw "repair_periodic_bonds w b" "repair_thresh w b" "bond_graph (self w)" "[]" "[]"
      to_remove to_add]
  by (simp add: repair_scan_def needs_rewiring_def)

lemma untouched_bond_stays:
  assumes sc: "repair_scan cb w b kw = Inr (to_remove, to_add)"
      and sym: "\<forall>s u v. min_periodic_distance cb s u v = min_periodic_distance cb s v u"
      and e: "e \<in> set (bond_graph (self w))" and keep: "\<not> needs_rewiring cb w b e"
  shows "e \<in> set (fold add_bond to_add (fold remove_bond to_remove (bond_graph (self w))))"
proof -
  obtain p1 p2 where pe: "e = (p1, p2)" by (cases e)
  have "e \<noteq> (c, d) \<and> e \<noteq> (d, c)" if "(c, d) \<in> set to_remove" for c d
  proof -
    from that repair_scan_removed [OF sc] have n: "needs_rewiring cb w b (c, d)" by auto
    then have "needs_rewiring cb w b (d, c)"
      unfolding needs_rewiring_def using rewire_cond_sym [OF sym] by blast
    with n keep show ?thesis by auto
  qed
  with e have "e \<in> set (fold remove_bond to_remove (bond_graph (self w)))"
    by (auto simp: set_fold_remove_bond)
  with fold_add_bond_mono show ?thesis by blast
qed

subsection \<open>The short tile, step by step\<close>

lemma mic_axis_sym: "mic_axis p l (a - b) = mic_axis p l (b - a)"
  by (simp add: mic_axis_def abs_minus_commute)

lemma mic_distance_sym: "mic_distance bx p u v = mic_distance bx p v u"
proof -
  obtain a b c where u: "u = (a, b, c)" by (cases u)
  obtain x y z where v: "v = (x, y, z)" by (cases v)
  obtain px py pz where p: "p = (px, py, pz)" by (cases p)
  have n: "vnorm (a - x, b - y, c - z) = vnorm (x - a, y - b, z - c)"
  proof -
    have "(a - x) * (a - x) = (x - a) * (x - a)" "(b - y) * (b - y) = (y - b) * (y - b)"
      "(c - z) * (c - z) = (z - c) * (z - c)" by (simp_all add: algebra_simps)
    then show ?thesis by (simp add: vnorm_def)
  qed
  show ?thesis
  proof (cases bx)
    case None
    then show ?thesis by (simp add: mic_distance_def u v vsub_def n)
  next
    case (Some bb)
    obtain lx ly lz where l: "lengths bb = (lx, ly, lz)" by (cases "lengths bb")
    show ?thesis
      by (simp add: mic_distance_def Some l u v p vsub_def mic_axis_sym [of _ _ a x]
          mic_axis_sym [of _ _ b y] mic_axis_sym [of _ _ c z])
  qed
qed












subsection \<open>Which bonds the repair touches\<close>



subsection \<open>What becomes of a periodic bond\<close>

lemma find_particle_image_index:
  "find_particle_image cb h tree q m ap kw = Inr p \<Longrightarrow> index (h p) = index (h m)"
  using find_particle_image_Inr [of cb h tree q m ap kw p] by (auto simp: find_Some_iff)

lemma repair_scan_images:
  assumes sc: "repair_scan cb w b kw = Inr (to_remove, to_add)"
      and e: "(p1, p2) \<in> set (bond_graph (self w))" and need: "needs_rewiring cb w b (p1, p2)"
  shows "\<exists>i2 i1. image_of cb w kw p1 p2 = Inr i2 \<and> image_of cb w kw p2 p1 = Inr i1
           \<and> has_bond to_add (p1, i2) \<and> has_bond to_add (p2, i1)"
  using scan_images_queued [OF sc [unfolded repair_scan_def] e need [unfolded needs_rewiring_def]]
  by (simp add: image_of_def has_bond_def)

lemma has_bond_fold_add:
  "has_bond to_add e \<Longrightarrow> has_bond (fold add_bond to_add g) e"
proof -
  obtain a c where e: "e = (a, c)" by (cases e)
  assume "has_bond to_add e"
  then have "(a, c) \<in> set to_add \<or> (c, a) \<in> set to_add" by (simp add: has_bond_def e)
  then show ?thesis
  proof
    assume "(a, c) \<in> set to_add"
    from fold_add_bond_has [OF this] show ?thesis by (simp add: e)
  next
    assume "(c, a) \<in> set to_add"
    from fold_add_bond_has [OF this, of g] show ?thesis by (auto simp: e has_bond_def)
  qed
qed

subsection \<open>The replicas\<close>

text \<open>
  C3, as the code has it. After a successful call the grid has one coordinate for each
  \<open>(i, j, k)\<close> below the counts, each once, and the particle count of the result is the
  product of the counts times that of the template (with and without port particles).
  When some count is above 1 the particles of the result are new objects, none of them
  a particle of the template: the \<open>j\<close>-th particle of the replica of rank \<open>r\<close> in the
  grid is a copy of the \<open>j\<close>-th template particle, moved by the grid coordinate times
  the box lengths of the template. When all counts are 1 the result holds the template's
  own particles, where they are: the template itself is added, not a copy (lines 53 to
  56).
\<close>

theorem C3_replicas:
  assumes ok: "TiledCompound_init cb w0 (nx, ny, nz) kw = Inr w'"
      and fresh: "\<forall>a \<in> set (parts (tile w0)). a < next_addr w0"
  shows "length (grid (nx, ny, nz)) = nat nx * nat ny * nat nz
       \<and> set (grid (nx, ny, nz)) = {(i, j, k). i < nat nx \<and> j < nat ny \<and> k < nat nz}
       \<and> distinct (grid (nx, ny, nz))
       \<and> length (parts (self w')) = nat nx * nat ny * nat nz * length (parts (tile w0))
       \<and> length (particles (heap w') (self w') False) =
           nat nx * nat ny * nat nz * length (particles (heap w0) (tile w0) False)
       \<and> (if all_one (nx, ny, nz) then parts (self w') = parts (tile w0) \<and> heap w' = heap w0
          else parts (self w') =
                 [next_addr w0 ..< next_addr w0 + nat nx * nat ny * nat nz * length (parts (tile w0))]
             \<and> set (parts (self w')) \<inter> set (parts (tile w0)) = {}
             \<and> (\<exists>b. box (tile w') = Some b
                  \<and> (\<forall>r < length (grid (nx, ny, nz)). \<forall>j < length (parts (tile w0)).
                        pos (heap w' (next_addr w0 + r * length (parts (tile w0)) + j)) =
                          vadd (pos (heap w0 (parts (tile w0) ! j)))
                               (vmul (of_ijk (grid (nx, ny, nz) ! r)) (lengths b))
                      \<and> port_particle (heap w' (next_addr w0 + r * length (parts (tile w0)) + j)) =
                          port_particle (heap w0 (parts (tile w0) ! j)))))"
proof (cases rule: init_success_cases [OF ok])
  case (1 w b)
  note fr = init_checks_Inr_frame [OF 1(1)]
  from 1(2) have g: "nat nx * nat ny * nat nz = 1" by (simp add: all_one_def)
  have p: "parts (self w') = parts (tile w0)" and h: "heap w' = heap w0"
    by (simp_all add: 1(3) add_child_def fr)
  show ?thesis
    using 1(2) by (simp add: grid_length grid_set grid_distinct g p h particles_def)
next
  case (2 w b to_remove to_add)
  note fr = init_checks_Inr_frame [OF 2(1)]
  let ?wr = "replicate_tiles w b (nx, ny, nz)"
  let ?P = "length (parts (tile w0))"
  let ?G = "nat nx * nat ny * nat nz"
  have fresh': "\<forall>a \<in> set (parts (tile w)). a < next_addr w" using fresh by (simp add: fr)
  have parts': "parts (self w') = [next_addr w0 ..< next_addr w0 + ?G * ?P]"
    by (simp add: 2(4) replicate_tiles_frame fr grid_length)
  have tile': "box (tile w') = Some b" by (simp add: 2(4) replicate_tiles_frame fr)
  have new: "heap w' (next_addr w0 + r * ?P + j) =
               (assign_indices (heap w0) (parts (tile w0)) (parts (tile w0) ! j))
                 \<lparr>pos := vadd (pos (heap w0 (parts (tile w0) ! j)))
                            (vmul (of_ijk (grid (nx, ny, nz) ! r)) (lengths b)),
                  index := None\<rparr>"
    if r: "r < length (grid (nx, ny, nz))" and j: "j < ?P" for r j
  proof -
    have "r * ?P + j < length (grid (nx, ny, nz)) * ?P"
    proof -
      have "r * ?P + j < Suc r * ?P" using j by simp
      also have "\<dots> \<le> length (grid (nx, ny, nz)) * ?P" using r by (intro mult_le_mono1) simp
      finally show ?thesis .
    qed
    then have mem: "next_addr w0 + r * ?P + j \<in> set (parts (self ?wr))"
      by (simp add: replicate_tiles_frame fr)
    from replicate_tiles_new [OF fresh', of r "(nx, ny, nz)" j b] r j
    show ?thesis
      by (simp add: 2(4) clear_indices_apply mem fr)
  qed
  have disj: "set (parts (self w')) \<inter> set (parts (tile w0)) = {}"
    using fresh by (auto simp: parts')
  have cnt: "length (filter (\<lambda>a. \<not> port_particle (heap w' a)) [next_addr w0 ..< next_addr w0 + ?G * ?P])
      = ?G * length (filter (\<lambda>j. \<not> port_particle (heap w0 (parts (tile w0) ! j))) [0 ..< ?P])"
    by (rule count_blocks) (simp add: new grid_length)
  have cnt': "length (particles (heap w') (self w') False) =
           ?G * length (particles (heap w0) (tile w0) False)"
    using cnt count_index_list [of "\<lambda>a. \<not> port_particle (heap w0 a)" "parts (tile w0)"]
    by (simp add: particles_def parts')
  show ?thesis
    using 2(2) disj by (simp add: grid_length grid_set grid_distinct parts' cnt' tile' new)
qed

lemma ring_final_heap:
  "heap (final (TiledCompound_init spec_collaborators ring_world (2, 1, 1) [])) a =
     (if a \<in> {2, 3, 4, 5} then (heap ring_replicated a)\<lparr>index := None\<rparr>
      else heap ring_replicated a)"
  by (simp add: ring_init final_def clear_indices_apply)

lemma ring_world_sel:
  "parts (tile ring_world) = [0, 1]" "next_addr ring_world = 2"
  "heap ring_world 0 = \<lparr>pos = (1, 0, 0), index = None, port_particle = False\<rparr>"
  "heap ring_world (Suc 0) = \<lparr>pos = (9, 0, 0), index = None, port_particle = False\<rparr>"
  "box (tile ring_world) = Some (cube 10 10 10)"
  "periodicity (tile ring_world) = (True, False, False)"
  by (simp_all add: ring_world_def world_defs)

text \<open>The ring tiled twice: four new particles, the last one at 9 + 10.\<close>

theorem C3_replicas_witness:
  "TiledCompound_init spec_collaborators ring_world (2, 1, 1) [] =
     Inr (final (TiledCompound_init spec_collaborators ring_world (2, 1, 1) []))
   \<and> parts (tile ring_world) = [0, 1] \<and> next_addr ring_world = 2
   \<and> \<not> all_one (2, 1, 1)
   \<and> grid (2, 1, 1) = [(0, 0, 0), (1, 0, 0)]
   \<and> parts (self (final (TiledCompound_init spec_collaborators ring_world (2, 1, 1) [])))
       = [2, 3, 4, 5]
   \<and> length (particles (heap (final (TiledCompound_init spec_collaborators ring_world (2, 1, 1) [])))
         (self (final (TiledCompound_init spec_collaborators ring_world (2, 1, 1) []))) False) = 4
   \<and> pos (heap (final (TiledCompound_init spec_collaborators ring_world (2, 1, 1) [])) 5)
       = vadd (pos (heap ring_world 1)) (vmul (of_ijk (1, 0, 0)) (10, 10, 10))
   \<and> pos (heap (final (TiledCompound_init spec_collaborators ring_world (2, 1, 1) [])) 5)
       = (19, 0, 0)"
  using C3_replicas [of spec_collaborators ring_world 2 1 1 "[]"
      "final (TiledCompound_init spec_collaborators ring_world (2, 1, 1) [])"]
  by (simp add: ring_init final_def ring_world_sel all_one_def grid_def particles_def
      clear_indices_apply ring_replicated_self ring_heap vadd_def vmul_def of_ijk_def upt_rec)

lemma ring_init_fast:
  "TiledCompound_init spec_collaborators ring_world (1, 1, 1) [] =
     Inr (ring_world\<lparr>self := \<lparr>parts = [0, 1], bond_graph = [(0, 1)],
                                  box = Some (cube 10 10 10), periodicity = (True, False, False)\<rparr>\<rparr>)"
  by (simp add: TiledCompound_init_def init_checks_def ring_world_def world_defs all_positive_def
      all_one_def ensure_box_def periodic_where_tiled_def vmul_def of_counts_def add_child_def)

text \<open>
  The ring with counts \<open>(1, 1, 1)\<close>, a valid input: the particles of the result are
  the particles 0 and 1 of the template.
\<close>

theorem C3_alias_counterexample:
  "all_positive (1, 1, 1)
   \<and> periodic_where_tiled (1, 1, 1) (periodicity (tile ring_world))
   \<and> raised (TiledCompound_init spec_collaborators ring_world (1, 1, 1) []) = None
   \<and> parts (self (final (TiledCompound_init spec_collaborators ring_world (1, 1, 1) []))) = [0, 1]
   \<and> parts (tile ring_world) = [0, 1]"
  by (simp add: ring_init_fast raised_def final_def ring_world_sel all_positive_def
      periodic_where_tiled_def)

subsection \<open>The clean-up\<close>

text \<open>
  C9, as the code has it. When the constructor returns, the structure has no
  \<open>particle_kdtree\<close>, and when some count is above 1 every particle of the structure
  (ports included) has its \<open>index\<close> set to \<open>None\<close>. When the constructor raises after the
  argument checks (an error of the scan), lines 130 to 133 are not reached: the object
  under construction still holds the spatial index and its particles their template
  indices, exactly as when the scan began.
\<close>

theorem C9_cleanup:
  assumes chk: "init_checks cb w0 n = Inr (w, b)"
  shows "(raised (TiledCompound_init cb w0 n kw) = None \<longrightarrow>
            particle_kdtree (final (TiledCompound_init cb w0 n kw)) = None
            \<and> (\<not> all_one n \<longrightarrow>
                 (\<forall>a \<in> set (particles (heap (final (TiledCompound_init cb w0 n kw)))
                               (self (final (TiledCompound_init cb w0 n kw))) True).
                    index (heap (final (TiledCompound_init cb w0 n kw)) a) = None)))
       \<and> (raised (TiledCompound_init cb w0 n kw) \<noteq> None \<longrightarrow>
            particle_kdtree (final (TiledCompound_init cb w0 n kw))
              = Some (build_kdtree (replicate_tiles w b n))
            \<and> heap (final (TiledCompound_init cb w0 n kw)) = heap (replicate_tiles w b n)
            \<and> self (final (TiledCompound_init cb w0 n kw)) = self (replicate_tiles w b n))"
proof (cases "all_one n")
  case True
  show ?thesis
    by (simp add: init_fast [OF chk True] raised_def final_def True
        init_checks_Inr_frame [OF chk])
next
  case False
  show ?thesis
  proof (cases "repair_scan cb (replicate_tiles w b n) b kw")
    case (Inl e)
    show ?thesis
      by (simp add: init_repair [OF chk False] repair_fail [OF Inl] raised_def final_def)
  next
    case (Inr q)
    obtain to_remove to_add where q: "q = (to_remove, to_add)" by (cases q)
    have ok: "repair_scan cb (replicate_tiles w b n) b kw = Inr (to_remove, to_add)"
      using Inr unfolding q .
    show ?thesis
      by (simp add: init_repair [OF chk False] repair_ok [OF ok] raised_def final_def
          clear_indices_apply)
  qed
qed

text \<open>The ring tiled twice, successfully.\<close>

theorem C9_cleanup_witness:
  "init_checks spec_collaborators ring_world (2, 1, 1) = Inr (ring_checked, cube 10 10 10)
   \<and> raised (TiledCompound_init spec_collaborators ring_world (2, 1, 1) []) = None
   \<and> \<not> all_one (2, 1, 1)
   \<and> particle_kdtree (final (TiledCompound_init spec_collaborators ring_world (2, 1, 1) [])) = None
   \<and> particles (heap (final (TiledCompound_init spec_collaborators ring_world (2, 1, 1) [])))
        (self (final (TiledCompound_init spec_collaborators ring_world (2, 1, 1) []))) True
       = [2, 3, 4, 5]
   \<and> index (heap (final (TiledCompound_init spec_collaborators ring_world (2, 1, 1) [])) 2) = None
   \<and> index (heap (final (TiledCompound_init spec_collaborators ring_world (2, 1, 1) [])) 5) = None"
  using C9_cleanup [OF ring_checks, of "[]"]
  by (simp add: ring_checks ring_init raised_def final_def all_one_def ring_replicated_self)

lemma ring_final:
  "final (TiledCompound_init spec_collaborators ring_world (2, 1, 1) []) =
     ring_replicated
       \<lparr>self := (self ring_replicated)\<lparr>bond_graph := [(3, 4), (2, 5)]\<rparr>,
        heap := clear_indices (heap ring_replicated) [2, 3, 4, 5],
        particle_kdtree := None\<rparr>"
  by (simp add: ring_init final_def)

lemma ring_retile:
  "TiledCompound_init spec_collaborators
       (final (TiledCompound_init spec_collaborators ring_world (2, 1, 1) [])) (1, 1, 1) [] =
     Inr ((final (TiledCompound_init spec_collaborators ring_world (2, 1, 1) []))
            \<lparr>self := \<lparr>parts = [0, 1], bond_graph = [(0, 1)],
                       box = Some (cube 10 10 10), periodicity = (True, False, False)\<rparr>\<rparr>)"
  unfolding ring_final
  by (simp add: TiledCompound_init_def init_checks_def all_positive_def
      all_one_def ensure_box_def periodic_where_tiled_def ring_replicated_tile chain_tile_def
      cube_def empty_compound_def vmul_def of_counts_def add_child_def)

text \<open>
  The ring tiled twice with \<open>k = 1\<close>: the constructor raises, and the structure it was
  building keeps the spatial index and the template index 0 on particle 2. And on the
  path without error: the template of the successful tiling above keeps the indices that
  line 64 wrote on it, so tiling it again with counts \<open>(1, 1, 1)\<close> returns a structure
  whose particle 0 carries the template index 0.
\<close>

theorem C9_no_cleanup_counterexample:
  "raised (TiledCompound_init spec_collaborators ring_world (2, 1, 1) [(''k'', 1)]) =
     Some (MBuildError ''Unable to find matching particle image while stitching bonds.'')
   \<and> particle_kdtree (final (TiledCompound_init spec_collaborators ring_world (2, 1, 1)
        [(''k'', 1)])) =
       Some \<lparr>kd_data = [(1, 0, 0), (9, 0, 0), (11, 0, 0), (19, 0, 0)],
             kd_box = Some (cube 20 10 10), kd_periodicity = (True, False, False)\<rparr>
   \<and> parts (self (final (TiledCompound_init spec_collaborators ring_world (2, 1, 1)
        [(''k'', 1)]))) = [2, 3, 4, 5]
   \<and> index (heap (final (TiledCompound_init spec_collaborators ring_world (2, 1, 1)
        [(''k'', 1)])) 2) = Some 0
   \<and> raised (TiledCompound_init spec_collaborators
        (final (TiledCompound_init spec_collaborators ring_world (2, 1, 1) [])) (1, 1, 1) []) = None
   \<and> parts (self (final (TiledCompound_init spec_collaborators
        (final (TiledCompound_init spec_collaborators ring_world (2, 1, 1) [])) (1, 1, 1) [])))
       = [0, 1]
   \<and> index (heap (final (TiledCompound_init spec_collaborators
        (final (TiledCompound_init spec_collaborators ring_world (2, 1, 1) [])) (1, 1, 1) [])) 0)
       = Some 0"
  unfolding ring_retile
  by (simp add: ring_k1 raised_def final_def ring_tree ring_replicated_self ring_heap
      ring_init clear_indices_apply)

subsection \<open>What the constructor does to the template\<close>

lemma init_checks_ok:
  assumes "all_positive n" "periodic_where_tiled n (periodicity (tile w0))"
  shows "\<exists>w b. init_checks cb w0 n = Inr (w, b)"
  using assms
  by (auto simp: init_checks_def ensure_box_def Let_def split: option.splits)

lemma template_after_replication:
  assumes chk: "init_checks cb w0 n = Inr (w, b)"
      and fresh: "\<forall>a \<in> set (parts (tile w0)). a < next_addr w0"
      and a: "a \<in> set (parts (tile w0))"
  shows "pos (heap (replicate_tiles w b n) a) = pos (heap w0 a)"
    "port_particle (heap (replicate_tiles w b n) a) = port_particle (heap w0 a)"
    "a \<notin> set (parts (self (replicate_tiles w b n)))"
proof -
  note fr = init_checks_Inr_frame [OF chk]
  from fresh a have lt: "a < next_addr w" by (simp add: fr)
  show "pos (heap (replicate_tiles w b n) a) = pos (heap w0 a)"
    "port_particle (heap (replicate_tiles w b n) a) = port_particle (heap w0 a)"
    by (simp_all add: replicate_tiles_old [OF lt] fr)
  show "a \<notin> set (parts (self (replicate_tiles w b n)))"
    using lt by (simp add: replicate_tiles_frame fr)
qed

text \<open>
  C2, as the code has it. Whether the call returns or raises, the template keeps its
  particles, their positions and port flags, its bonds and its periodicity (the objects
  made by \<open>clone\<close> being new ones). Its box is left as it is when it has one; a
  template without a box is given its bounding box (lines 37 and 38), unless the counts
  were rejected first. The attribute \<open>index\<close> of the template's particles is not covered
  here: line 64 writes it on the template when some count is above 1.
\<close>

theorem C2_template_frame:
  assumes fresh: "\<forall>a \<in> set (parts (tile w0)). a < next_addr w0"
  shows "parts (tile (final (TiledCompound_init cb w0 n kw))) = parts (tile w0)
       \<and> bond_graph (tile (final (TiledCompound_init cb w0 n kw))) = bond_graph (tile w0)
       \<and> periodicity (tile (final (TiledCompound_init cb w0 n kw))) = periodicity (tile w0)
       \<and> (\<forall>a \<in> set (parts (tile w0)).
             pos (heap (final (TiledCompound_init cb w0 n kw)) a) = pos (heap w0 a)
             \<and> port_particle (heap (final (TiledCompound_init cb w0 n kw)) a)
                 = port_particle (heap w0 a))
       \<and> box (tile (final (TiledCompound_init cb w0 n kw))) =
           (if all_positive n \<and> box (tile w0) = None
            then Some (get_boundingbox cb (heap w0) (tile w0)) else box (tile w0))"
proof (cases "all_positive n \<and> periodic_where_tiled n (periodicity (tile w0))")
  case False
  then have "\<not> all_positive n \<or> \<not> periodic_where_tiled n (periodicity (tile w0))" by simp
  then show ?thesis
  proof
    assume np: "\<not> all_positive n"
    show ?thesis
      by (simp add: init_Inl [OF init_checks_not_positive [OF np]] final_def np)
  next
    assume nper: "\<not> periodic_where_tiled n (periodicity (tile w0))"
    show ?thesis
    proof (cases "all_positive n")
      case True
      show ?thesis
        by (simp add: init_Inl [OF init_checks_not_periodic [OF True nper]] final_def True
            ensure_box_def Let_def split: option.splits)
    next
      case np: False
      show ?thesis
        by (simp add: init_Inl [OF init_checks_not_positive [OF np]] final_def np)
    qed
  qed
next
  case True
  then have pos: "all_positive n" and per: "periodic_where_tiled n (periodicity (tile w0))"
    by simp_all
  from init_checks_ok [OF pos per] obtain w b where chk: "init_checks cb w0 n = Inr (w, b)"
    by blast
  note fr = init_checks_Inr_frame [OF chk]
  note b = init_checks_Inr(3) [OF chk]
  have bx: "box (tile w) =
           (if all_positive n \<and> box (tile w0) = None
            then Some (get_boundingbox cb (heap w0) (tile w0)) else box (tile w0))"
    using pos by (simp add: fr b split: option.splits)
  show ?thesis
  proof (cases "all_one n")
    case one: True
    show ?thesis
      using bx by (simp add: init_fast [OF chk one] final_def fr)
  next
    case notone: False
    note tpl = template_after_replication [OF chk fresh]
    show ?thesis
    proof (cases "repair_scan cb (replicate_tiles w b n) b kw")
      case (Inl e)
      show ?thesis
        using bx
        by (simp add: init_repair [OF chk notone] repair_fail [OF Inl] final_def
            replicate_tiles_frame fr tpl)
    next
      case (Inr q)
      obtain to_remove to_add where q: "q = (to_remove, to_add)" by (cases q)
      have ok: "repair_scan cb (replicate_tiles w b n) b kw = Inr (to_remove, to_add)"
        using Inr unfolding q .
      show ?thesis
        using bx
        by (simp add: init_repair [OF chk notone] repair_ok [OF ok] final_def
            replicate_tiles_frame fr tpl clear_indices_apply)
    qed
  qed
qed

text \<open>The ring tiled twice: the template is where it was.\<close>

theorem C2_template_frame_witness:
  "parts (tile ring_world) = [0, 1] \<and> next_addr ring_world = 2
   \<and> parts (tile (final (TiledCompound_init spec_collaborators ring_world (2, 1, 1) []))) = [0, 1]
   \<and> bond_graph (tile (final (TiledCompound_init spec_collaborators ring_world (2, 1, 1) [])))
       = bond_graph (tile ring_world)
   \<and> pos (heap (final (TiledCompound_init spec_collaborators ring_world (2, 1, 1) [])) 0)
       = pos (heap ring_world 0)
   \<and> pos (heap (final (TiledCompound_init spec_collaborators ring_world (2, 1, 1) [])) 1)
       = pos (heap ring_world 1)
   \<and> box (tile (final (TiledCompound_init spec_collaborators ring_world (2, 1, 1) [])))
       = Some (cube 10 10 10)"
  using C2_template_frame [of ring_world spec_collaborators "(2, 1, 1)" "[]"]
  by (simp add: ring_world_sel all_positive_def)

text \<open>
  A template without a box, tiled with counts \<open>(1, 1, 1)\<close>: the call returns and the
  template has a box. And the ring tiled twice: particle 0 of the template had no
  template index before the call and has the index 0 after it.
\<close>

theorem C2_template_mutated_counterexample:
  "box (tile (chain_world 1 9 (False, False, False) None)) = None
   \<and> raised (TiledCompound_init spec_collaborators (chain_world 1 9 (False, False, False) None)
        (1, 1, 1) []) = None
   \<and> box (tile (final (TiledCompound_init spec_collaborators
        (chain_world 1 9 (False, False, False) None) (1, 1, 1) [])))
       = Some \<lparr>lengths = (8, 0, 0), angles = (90, 90, 90)\<rparr>
   \<and> index (heap ring_world 0) = None
   \<and> index (heap (final (TiledCompound_init spec_collaborators ring_world (2, 1, 1) [])) 0)
       = Some 0"
proof -
  have idx: "index (heap (final (TiledCompound_init spec_collaborators ring_world (2, 1, 1) [])) 0)
       = Some 0"
    by (simp add: ring_final clear_indices_apply ring_heap)
  have bx: "raised (TiledCompound_init spec_collaborators (chain_world 1 9 (False, False, False) None)
        (1, 1, 1) []) = None
   \<and> box (tile (final (TiledCompound_init spec_collaborators
        (chain_world 1 9 (False, False, False) None) (1, 1, 1) [])))
       = Some \<lparr>lengths = (8, 0, 0), angles = (90, 90, 90)\<rparr>"
    by (simp add: TiledCompound_init_def init_checks_def all_positive_def all_one_def
        ensure_box_def Let_def periodic_where_tiled_def chain_world_def chain_tile_def
        chain_heap_def raised_def final_def spec_collaborators_sel spec_boundingbox_def
        particles_def)
  from idx bx show ?thesis
    by (simp add: ring_world_sel chain_world_def chain_tile_def)
qed

subsection \<open>The cutoff and the Periodic Bond Set in the constructor\<close>

lemma template_index_after_replication:
  assumes chk: "init_checks cb w0 n = Inr (w, b)"
      and fresh: "\<forall>a \<in> set (parts (tile w0)). a < next_addr w0"
      and dist: "distinct (parts (tile w0))"
      and i: "i < length (parts (tile w0))"
  shows "index (heap (replicate_tiles w b n) (parts (tile w0) ! i)) = Some i"
proof -
  note fr = init_checks_Inr_frame [OF chk]
  from fresh i have lt: "parts (tile w0) ! i < next_addr w" by (simp add: fr)
  show ?thesis
    using assign_indices_index [OF dist i, of "heap w0"]
    by (simp add: replicate_tiles_old [OF lt] fr)
qed

text \<open>
  C6. In the constructor, \<open>b\<close> being the box of the template and the template being well
  formed (its particles are distinct objects allocated before the call, its bonds join
  particles of its own): \<open>dist_thresh\<close> is half the minimum of the lengths of \<open>b\<close> over
  the axes along which the template is periodic, and infinite when there is none; the
  Periodic Bond Set holds exactly the pairs \<open>(i, j)\<close> of template indices such that the
  \<open>i\<close>-th and \<open>j\<close>-th particle of the template are bonded, in this order, and their raw
  distance in the template exceeds \<open>dist_thresh\<close>.
\<close>

theorem C6_cutoff_and_periodic_bonds:
  assumes chk: "init_checks cb w0 n = Inr (w, b)"
      and fresh: "\<forall>a \<in> set (parts (tile w0)). a < next_addr w0"
      and dist: "distinct (parts (tile w0))"
      and wf: "\<forall>e \<in> set (bond_graph (tile w0)).
                 fst e \<in> set (parts (tile w0)) \<and> snd e \<in> set (parts (tile w0))"
      and per: "periodicity (tile w0) = (px, py, pz)" and len: "lengths b = (lx, ly, lz)"
  shows "box (tile (replicate_tiles w b n)) = Some b
       \<and> repair_thresh (replicate_tiles w b n) b =
           (if \<not> px \<and> \<not> py \<and> \<not> pz then PInf
            else Fin (Min (set (map snd (filter fst [(px, lx), (py, ly), (pz, lz)]))) / 2))
       \<and> repair_periodic_bonds (replicate_tiles w b n) b =
           {(Some i, Some j) | i j.
              i < length (parts (tile w0)) \<and> j < length (parts (tile w0))
              \<and> (parts (tile w0) ! i, parts (tile w0) ! j) \<in> set (bond_graph (tile w0))
              \<and> exceeds (vnorm (vsub (pos (heap w0 (parts (tile w0) ! i)))
                                      (pos (heap w0 (parts (tile w0) ! j)))))
                         (repair_thresh (replicate_tiles w b n) b)}"
proof -
  note fr = init_checks_Inr_frame [OF chk]
  let ?wr = "replicate_tiles w b n"
  let ?ps = "parts (tile w0)"
  let ?thr = "repair_thresh ?wr b"
  have bx: "box (tile ?wr) = Some b" by (simp add: replicate_tiles_frame fr)
  have thr: "?thr =
           (if \<not> px \<and> \<not> py \<and> \<not> pz then PInf
            else Fin (Min (set (map snd (filter fst [(px, lx), (py, ly), (pz, lz)]))) / 2))"
    unfolding repair_thresh_def by (simp only: replicate_tiles_frame fr per len dist_thresh_cases)
  have pb: "repair_periodic_bonds ?wr b =
      {(index (heap ?wr a), index (heap ?wr c)) | a c.
         (a, c) \<in> set (bond_graph (tile w0))
         \<and> exceeds (vnorm (vsub (pos (heap ?wr a)) (pos (heap ?wr c)))) ?thr}"
    unfolding repair_periodic_bonds_def periodic_bonds_def periodic_bonds_fold
    by (simp add: replicate_tiles_frame fr)
  have "repair_periodic_bonds ?wr b =
           {(Some i, Some j) | i j.
              i < length ?ps \<and> j < length ?ps
              \<and> (?ps ! i, ?ps ! j) \<in> set (bond_graph (tile w0))
              \<and> exceeds (vnorm (vsub (pos (heap w0 (?ps ! i))) (pos (heap w0 (?ps ! j))))) ?thr}"
    (is "_ = ?R")
  proof (rule set_eqI)
    fix x
    show "x \<in> repair_periodic_bonds ?wr b \<longleftrightarrow> x \<in> ?R"
    proof
      assume "x \<in> repair_periodic_bonds ?wr b"
      then obtain a c where x: "x = (index (heap ?wr a), index (heap ?wr c))"
        and e: "(a, c) \<in> set (bond_graph (tile w0))"
        and ex: "exceeds (vnorm (vsub (pos (heap ?wr a)) (pos (heap ?wr c)))) ?thr"
        unfolding pb by blast
      from wf e have ain: "a \<in> set ?ps" and cin: "c \<in> set ?ps" by auto
      then obtain i j where i: "i < length ?ps" "?ps ! i = a" and j: "j < length ?ps" "?ps ! j = c"
        by (auto simp: in_set_conv_nth)
      have ia: "index (heap ?wr a) = Some i" and ic: "index (heap ?wr c) = Some j"
        using template_index_after_replication [OF chk fresh dist] i j by auto
      have pa: "pos (heap ?wr a) = pos (heap w0 a)" and pc: "pos (heap ?wr c) = pos (heap w0 c)"
        using template_after_replication(1) [OF chk fresh] ain cin by auto
      from e ex i j show "x \<in> ?R" unfolding x ia ic pa pc by auto
    next
      assume "x \<in> ?R"
      then obtain i j where x: "x = (Some i, Some j)"
        and i: "i < length ?ps" and j: "j < length ?ps"
        and e: "(?ps ! i, ?ps ! j) \<in> set (bond_graph (tile w0))"
        and ex: "exceeds (vnorm (vsub (pos (heap w0 (?ps ! i))) (pos (heap w0 (?ps ! j))))) ?thr"
        by blast
      have ia: "index (heap ?wr (?ps ! i)) = Some i" and ic: "index (heap ?wr (?ps ! j)) = Some j"
        using template_index_after_replication [OF chk fresh dist] i j by auto
      have pa: "pos (heap ?wr (?ps ! i)) = pos (heap w0 (?ps ! i))"
        and pc: "pos (heap ?wr (?ps ! j)) = pos (heap w0 (?ps ! j))"
        using template_after_replication(1) [OF chk fresh] i j by auto
      have "\<exists>a c. (Some i, Some j) = (index (heap ?wr a), index (heap ?wr c))
               \<and> (a, c) \<in> set (bond_graph (tile w0))
               \<and> exceeds (vnorm (vsub (pos (heap ?wr a)) (pos (heap ?wr c)))) ?thr"
        by (rule exI [of _ "?ps ! i"], rule exI [of _ "?ps ! j"]) (simp add: ia ic pa pc e ex)
      then show "x \<in> repair_periodic_bonds ?wr b"
        unfolding pb x by simp
    qed
  qed
  with bx thr show ?thesis by simp
qed

text \<open>The ring: the cutoff is 5 and the bond from 1 to 9, of length 8, is periodic.\<close>

lemma ring_tile_sel:
  "bond_graph (tile ring_world) = [(0, 1)]"
  by (simp add: ring_world_def world_defs)

theorem C6_cutoff_and_periodic_bonds_witness:
  "init_checks spec_collaborators ring_world (2, 1, 1) = Inr (ring_checked, cube 10 10 10)
   \<and> parts (tile ring_world) = [0, 1] \<and> next_addr ring_world = 2
   \<and> bond_graph (tile ring_world) = [(0, 1)]
   \<and> periodicity (tile ring_world) = (True, False, False)
   \<and> lengths (cube 10 10 10) = (10, 10, 10)
   \<and> box (tile (replicate_tiles ring_checked (cube 10 10 10) (2, 1, 1))) = Some (cube 10 10 10)
   \<and> repair_thresh (replicate_tiles ring_checked (cube 10 10 10) (2, 1, 1)) (cube 10 10 10)
       = Fin 5
   \<and> repair_periodic_bonds (replicate_tiles ring_checked (cube 10 10 10) (2, 1, 1))
        (cube 10 10 10) = {(Some 0, Some 1)}"
proof -
  have fresh: "\<forall>a \<in> set (parts (tile ring_world)). a < next_addr ring_world"
    by (simp add: ring_world_sel)
  have dist: "distinct (parts (tile ring_world))"
    by (simp add: ring_world_sel)
  have wf: "\<forall>e \<in> set (bond_graph (tile ring_world)).
              fst e \<in> set (parts (tile ring_world)) \<and> snd e \<in> set (parts (tile ring_world))"
    by (simp add: ring_world_sel ring_tile_sel)
  have len: "lengths (cube 10 10 10) = (10, 10, 10)"
    by (simp add: cube_def)
  note T = C6_cutoff_and_periodic_bonds [OF ring_checks fresh dist wf ring_world_sel(6) len]
  from T [THEN conjunct1] show ?thesis
    by (simp add: ring_checks ring_world_sel ring_tile_sel len
        ring_replicated_def [symmetric] ring_thresh ring_periodic_bonds)
qed

subsection \<open>The ring under the tree with padded answers\<close>

lemma tree_collaborators_sel:
  "kd_query tree_collaborators = padded_kd_query"
  "min_periodic_distance tree_collaborators = (\<lambda>s. mic_distance (box s) (periodicity s))"
  "get_boundingbox tree_collaborators = spec_boundingbox"
  by (simp_all add: tree_collaborators_def)

lemma vnorm_values:
  "vnorm (16, 12, 0) = 20" "vnorm (- 16, - 12, 0) = 20" "vnorm (5, 12, 0) = 13"
  "vnorm (0, 0, 0) = 0" "vnorm (21, 0, 0) = 21"
  by (simp_all add: vnorm_def real_sqrt_unique)

lemma ring_radius: "tree_radius (build_kdtree ring_replicated) = Fin 10"
  by (simp add: tree_radius_def ring_tree cube_def)

lemma replicate7: "replicate 7 x = [x, x, x, x, x, x, x]"
  by (simp add: numeral_eq_Suc)

lemma ring_padded_query:
  "padded_kd_query (build_kdtree ring_replicated) (1, 0, 0) 10 = [0, 3, 1, 4, 4, 4, 4, 4, 4, 4]"
  "padded_kd_query (build_kdtree ring_replicated) (1, 0, 0) 2 = [0, 3]"
  "padded_kd_query (build_kdtree ring_replicated) (9, 0, 0) 2 = [1, 2]"
  "padded_kd_query (build_kdtree ring_replicated) (11, 0, 0) 2 = [2, 1]"
  "padded_kd_query (build_kdtree ring_replicated) (19, 0, 0) 2 = [3, 0]"
  by (simp_all add: padded_kd_query_def ring_radius ring_tree [THEN arg_cong, of kd_data, simplified]
      ring_tree [THEN arg_cong, of kd_box, simplified] ring_tree [THEN arg_cong, of kd_periodicity, simplified]
      upt4 mic_distance_x mic_axis_values Let_def replicate7)

lemma ring_checks_tree:
  "init_checks tree_collaborators ring_world (2, 1, 1) = Inr (ring_checked, cube 10 10 10)"
  by (simp add: init_checks_def ring_world_def ring_checked_def world_defs all_positive_def
      ensure_box_def periodic_where_tiled_def vmul_def of_counts_def)

lemma ring_needs_rewiring_tree:
  "needs_rewiring tree_collaborators ring_replicated (cube 10 10 10) (2, 3)"
  "needs_rewiring tree_collaborators ring_replicated (cube 10 10 10) (4, 5)"
  by (simp_all add: needs_rewiring_def rewire_cond_def ring_thresh ring_periodic_bonds
      ring_heap ring_replicated_self tree_collaborators_sel mic_distance_x mic_axis_values)

lemma ring_image_padded:
  "image_of tree_collaborators ring_replicated [] 2 3 = Inl IndexError"
  by (simp add: image_of_def find_particle_image_def kwargs_get_k_def ring_particles
      ring_heap tree_collaborators_sel ring_padded_query)

lemma ring_images_k2:
  "image_of tree_collaborators ring_replicated [(''k'', 2)] 2 3 = Inr 5"
  "image_of tree_collaborators ring_replicated [(''k'', 2)] 3 2 = Inr 4"
  "image_of tree_collaborators ring_replicated [(''k'', 2)] 4 5 = Inr 3"
  "image_of tree_collaborators ring_replicated [(''k'', 2)] 5 4 = Inr 2"
  by (simp_all add: image_of_def find_particle_image_def kwargs_get_k_def ring_particles
      ring_heap tree_collaborators_sel ring_padded_query)

lemma ring_scan_padded:
  "repair_scan tree_collaborators ring_replicated (cube 10 10 10) [] = Inl IndexError"
proof -
  note r = ring_needs_rewiring_tree [unfolded needs_rewiring_def]
  note i = ring_image_padded [unfolded image_of_def]
  show ?thesis
    unfolding repair_scan_def ring_replicated_self [THEN arg_cong, of bond_graph, simplified]
    by (simp only: scan_fail1 [OF r(1) i])
qed

lemma ring_scan_k2:
  "repair_scan tree_collaborators ring_replicated (cube 10 10 10) [(''k'', 2)] =
     Inr ([(4, 5), (2, 3)], [(3, 4), (2, 5)])"
proof -
  note r = ring_needs_rewiring_tree [unfolded needs_rewiring_def]
  note i = ring_images_k2 [unfolded image_of_def]
  show ?thesis
    unfolding repair_scan_def ring_replicated_self [THEN arg_cong, of bond_graph, simplified]
    by (simp only: scan_rewire [OF r(1) i(1) i(2)] scan_rewire [OF r(2) i(3) i(4)]
        scan_bonds.simps(1)) (simp add: queue_images_def)
qed

lemma ring_init_padded:
  "TiledCompound_init tree_collaborators ring_world (2, 1, 1) [] =
     Inl (IndexError, ring_replicated\<lparr>particle_kdtree := Some (build_kdtree ring_replicated)\<rparr>)"
  using init_repair [OF ring_checks_tree, of "[]"]
    repair_fail [OF ring_scan_padded [unfolded ring_replicated_def]]
  by (simp add: all_one_def ring_replicated_def [symmetric])

lemma ring_init_k2:
  "TiledCompound_init tree_collaborators ring_world (2, 1, 1) [(''k'', 2)] =
     Inr (ring_replicated
            \<lparr>self := (self ring_replicated)\<lparr>bond_graph := [(3, 4), (2, 5)]\<rparr>,
             heap := clear_indices (heap ring_replicated) [2, 3, 4, 5],
             particle_kdtree := None\<rparr>)"
  using init_repair [OF ring_checks_tree, of "[(''k'', 2)]"]
    repair_ok [OF ring_scan_k2 [unfolded ring_replicated_def]]
  by (simp add: all_one_def ring_replicated_def [symmetric] ring_replicated_self
      remove_bond_def add_bond_def has_bond_def)

subsection \<open>The skew tile, step by step\<close>

lemma skew_checks:
  "init_checks tree_collaborators skew_world (2, 1, 1) = Inr (skew_checked, cube 21 30 30)"
  by (simp add: init_checks_def skew_world_def skew_checked_def world_defs all_positive_def
      ensure_box_def periodic_where_tiled_def vmul_def of_counts_def)

lemma skew_replicated_self:
  "self skew_replicated =
     \<lparr>parts = [2, 3, 4, 5], bond_graph = [(2, 3), (4, 5)], box = Some (cube 42 30 30),
      periodicity = (True, False, False)\<rparr>"
  by (simp add: skew_replicated_def skew_checked_def skew_world_def world_defs
      replicate_tiles_def grid_def place_tile_def clone_def clone_of_def add_child_def
      Let_def upt_rec)

lemma skew_replicated_tile:
  "tile skew_replicated = chain_tile (True, False, False) (Some (cube 21 30 30))"
  by (simp add: skew_replicated_def replicate_tiles_frame skew_checked_def skew_world_def)

lemma skew_replicated_heap:
  "heap skew_replicated 0 = \<lparr>pos = (0, 0, 0), index = Some 0, port_particle = False\<rparr>"
  "heap skew_replicated 1 = \<lparr>pos = (16, 12, 0), index = Some 1, port_particle = False\<rparr>"
  "heap skew_replicated 2 = \<lparr>pos = (0, 0, 0), index = Some 0, port_particle = False\<rparr>"
  "heap skew_replicated 3 = \<lparr>pos = (16, 12, 0), index = Some 1, port_particle = False\<rparr>"
  "heap skew_replicated 4 = \<lparr>pos = (21, 0, 0), index = Some 0, port_particle = False\<rparr>"
  "heap skew_replicated 5 = \<lparr>pos = (37, 12, 0), index = Some 1, port_particle = False\<rparr>"
  by (simp_all add: skew_replicated_def skew_checked_def skew_world_def world_defs
      replicate_tiles_def grid_def place_tile_def clone_def clone_of_def add_child_def
      translate_def assign_indices_def vadd_def vmul_def of_ijk_def
      Let_def upt_rec)

lemmas skew_heap = skew_replicated_heap skew_replicated_heap(2) [unfolded One_nat_def]

lemma skew_thresh: "repair_thresh skew_replicated (cube 21 30 30) = Fin (21 / 2)"
  by (simp add: repair_thresh_def skew_replicated_tile chain_tile_def cube_def dist_thresh_def
      threshold_calc_def)

lemma skew_periodic_bonds:
  "repair_periodic_bonds skew_replicated (cube 21 30 30) = {(Some 0, Some 1)}"
  by (simp add: repair_periodic_bonds_def skew_thresh periodic_bonds_def skew_replicated_tile
      chain_tile_def skew_heap vsub_def vnorm_values)

lemma skew_tree:
  "build_kdtree skew_replicated =
     \<lparr>kd_data = [(0, 0, 0), (16, 12, 0), (21, 0, 0), (37, 12, 0)],
      kd_box = Some (cube 42 30 30), kd_periodicity = (True, False, False)\<rparr>"
  by (simp add: build_kdtree_def particles_def skew_replicated_self skew_heap)

lemma skew_radius: "tree_radius (build_kdtree skew_replicated) = Fin 21"
  by (simp add: tree_radius_def skew_tree cube_def)

lemma mic_distance_xy:
  "mic_distance (Some (cube lx ly lz)) (px, False, False) (x, y, 0) (x', y', 0)
     = vnorm (mic_axis px lx (x - x'), \<bar>y - y'\<bar>, 0)"
  by (simp add: mic_distance_def cube_def vsub_def mic_axis_def)

lemma mic_axis_skew_values:
  "mic_axis True 42 0 = 0" "mic_axis True 42 16 = 16" "mic_axis True 42 (- 16) = 16"
  "mic_axis True 42 21 = 21" "mic_axis True 42 (- 21) = 21"
  "mic_axis True 42 37 = 5" "mic_axis True 42 (- 37) = 5"
  "mic_axis True 42 5 = 5" "mic_axis True 42 (- 5) = 5"
  by (simp_all add: mic_axis_def Let_def)

lemma skew_distances:
  "mic_distance (Some (cube 42 30 30)) (True, False, False) (0, 0, 0) (0, 0, 0) = 0"
  "mic_distance (Some (cube 42 30 30)) (True, False, False) (0, 0, 0) (16, 12, 0) = 20"
  "mic_distance (Some (cube 42 30 30)) (True, False, False) (0, 0, 0) (21, 0, 0) = 21"
  "mic_distance (Some (cube 42 30 30)) (True, False, False) (0, 0, 0) (37, 12, 0) = 13"
  "mic_distance (Some (cube 42 30 30)) (True, False, False) (16, 12, 0) (0, 0, 0) = 20"
  "mic_distance (Some (cube 42 30 30)) (True, False, False) (16, 12, 0) (16, 12, 0) = 0"
  "mic_distance (Some (cube 42 30 30)) (True, False, False) (16, 12, 0) (21, 0, 0) = 13"
  "mic_distance (Some (cube 42 30 30)) (True, False, False) (16, 12, 0) (37, 12, 0) = 21"
  "mic_distance (Some (cube 42 30 30)) (True, False, False) (21, 0, 0) (0, 0, 0) = 21"
  "mic_distance (Some (cube 42 30 30)) (True, False, False) (21, 0, 0) (16, 12, 0) = 13"
  "mic_distance (Some (cube 42 30 30)) (True, False, False) (21, 0, 0) (21, 0, 0) = 0"
  "mic_distance (Some (cube 42 30 30)) (True, False, False) (21, 0, 0) (37, 12, 0) = 20"
  "mic_distance (Some (cube 42 30 30)) (True, False, False) (37, 12, 0) (0, 0, 0) = 13"
  "mic_distance (Some (cube 42 30 30)) (True, False, False) (37, 12, 0) (16, 12, 0) = 21"
  "mic_distance (Some (cube 42 30 30)) (True, False, False) (37, 12, 0) (21, 0, 0) = 20"
  "mic_distance (Some (cube 42 30 30)) (True, False, False) (37, 12, 0) (37, 12, 0) = 0"
  by (simp_all add: mic_distance_xy mic_axis_skew_values vnorm_values)

lemma skew_padded_query:
  "padded_kd_query (build_kdtree skew_replicated) (0, 0, 0) 2 = [0, 3]"
  "padded_kd_query (build_kdtree skew_replicated) (16, 12, 0) 2 = [1, 2]"
  "padded_kd_query (build_kdtree skew_replicated) (21, 0, 0) 2 = [2, 1]"
  "padded_kd_query (build_kdtree skew_replicated) (37, 12, 0) 2 = [3, 0]"
  by (simp_all add: padded_kd_query_def skew_radius skew_tree [THEN arg_cong, of kd_data, simplified]
      skew_tree [THEN arg_cong, of kd_box, simplified] skew_tree [THEN arg_cong, of kd_periodicity, simplified]
      upt4 skew_distances Let_def)

lemma skew_particles: "particles (heap skew_replicated) (self skew_replicated) False = [2, 3, 4, 5]"
  by (simp add: particles_def skew_replicated_self skew_heap)

lemma skew_images:
  "image_of tree_collaborators skew_replicated [(''k'', 2)] 2 3 = Inr 5"
  "image_of tree_collaborators skew_replicated [(''k'', 2)] 3 2 = Inr 4"
  "image_of tree_collaborators skew_replicated [(''k'', 2)] 4 5 = Inr 3"
  "image_of tree_collaborators skew_replicated [(''k'', 2)] 5 4 = Inr 2"
  by (simp_all add: image_of_def find_particle_image_def kwargs_get_k_def skew_particles
      skew_heap tree_collaborators_sel skew_padded_query)

lemma skew_needs_rewiring:
  "needs_rewiring tree_collaborators skew_replicated (cube 21 30 30) (2, 3)"
  "needs_rewiring tree_collaborators skew_replicated (cube 21 30 30) (4, 5)"
  by (simp_all add: needs_rewiring_def rewire_cond_def skew_thresh skew_periodic_bonds
      skew_heap skew_replicated_self tree_collaborators_sel skew_distances)

lemma skew_scan:
  "repair_scan tree_collaborators skew_replicated (cube 21 30 30) [(''k'', 2)] =
     Inr ([(4, 5), (2, 3)], [(3, 4), (2, 5)])"
proof -
  note r = skew_needs_rewiring [unfolded needs_rewiring_def]
  note i = skew_images [unfolded image_of_def]
  show ?thesis
    unfolding repair_scan_def skew_replicated_self [THEN arg_cong, of bond_graph, simplified]
    by (simp only: scan_rewire [OF r(1) i(1) i(2)] scan_rewire [OF r(2) i(3) i(4)]
        scan_bonds.simps(1)) (simp add: queue_images_def)
qed

lemma skew_init:
  "TiledCompound_init tree_collaborators skew_world (2, 1, 1) [(''k'', 2)] =
     Inr (skew_replicated
            \<lparr>self := (self skew_replicated)\<lparr>bond_graph := [(3, 4), (2, 5)]\<rparr>,
             heap := clear_indices (heap skew_replicated) [2, 3, 4, 5],
             particle_kdtree := None\<rparr>)"
  using init_repair [OF skew_checks, of "[(''k'', 2)]"]
    repair_ok [OF skew_scan [unfolded skew_replicated_def]]
  by (simp add: all_one_def skew_replicated_def [symmetric] skew_replicated_self
      remove_bond_def add_bond_def has_bond_def)

lemma skew_final:
  "final (TiledCompound_init tree_collaborators skew_world (2, 1, 1) [(''k'', 2)]) =
     skew_replicated
       \<lparr>self := (self skew_replicated)\<lparr>bond_graph := [(3, 4), (2, 5)]\<rparr>,
        heap := clear_indices (heap skew_replicated) [2, 3, 4, 5],
        particle_kdtree := None\<rparr>"
  by (simp add: skew_init final_def)

subsection \<open>The image that the lookup returns\<close>

lemma find_particle_image_finds:
  assumes "\<forall>i \<in> set (kd_query cb tree (pos (h q)) (kwargs_get_k kw)). i < length ap"
      and "\<exists>i \<in> set (kd_query cb tree (pos (h q)) (kwargs_get_k kw)). index (h (ap ! i)) = index (h m)"
  shows "\<exists>p. find_particle_image cb h tree q m ap kw = Inr p"
proof (cases "find_particle_image cb h tree q m ap kw")
  case (Inl e)
  from find_particle_image_Inl(2) [OF assms(1) Inl] assms(2) show ?thesis by blast
next
  case (Inr p)
  then show ?thesis by blast
qed

lemma exceeds_mono: "d' \<le> d \<Longrightarrow> exceeds d' t \<Longrightarrow> exceeds d t"
  by (cases t) auto

lemma image_of_nearest:
  assumes res: "image_of cb w kw q m = Inr p"
  shows "p \<in> set (neighbors cb w kw q)"
    "sorted (map (endpoint_distance cb w q) (neighbors cb w kw q)) \<Longrightarrow>
       c \<in> set (neighbors cb w kw q) \<Longrightarrow> index (heap w c) = index (heap w m) \<Longrightarrow>
       endpoint_distance cb w q p \<le> endpoint_distance cb w q c"
proof -
  let ?ap = "particles (heap w) (self w) False"
  let ?idxs = "kd_query cb (build_kdtree w) (pos (heap w q)) (kwargs_get_k kw)"
  note r = res [unfolded image_of_def]
  from find_particle_image_Inr [OF r] show "p \<in> set (neighbors cb w kw q)"
    by (auto simp: neighbors_def find_Some_iff)
  assume asc: "sorted (map (endpoint_distance cb w q) (neighbors cb w kw q))"
    and c: "c \<in> set (neighbors cb w kw q)" and ic: "index (heap w c) = index (heap w m)"
  from asc have asc': "sorted (map (\<lambda>i. endpoint_distance cb w q (?ap ! i)) ?idxs)"
    by (simp add: neighbors_def comp_def)
  from c obtain i where i: "i \<in> set ?idxs" "c = ?ap ! i" by (auto simp: neighbors_def)
  from first_match_is_nearest [OF r asc'] i ic
  show "endpoint_distance cb w q p \<le> endpoint_distance cb w q c" by blast
qed

lemma tree_distance_sym:
  "\<forall>s u v. min_periodic_distance tree_collaborators s u v
             = min_periodic_distance tree_collaborators s v u"
  by (simp add: tree_collaborators_sel mic_distance_sym)

lemma ring_neighbors_k2:
  "neighbors tree_collaborators ring_replicated [(''k'', 2)] 2 = [2, 5]"
  "neighbors tree_collaborators ring_replicated [(''k'', 2)] 3 = [3, 4]"
  by (simp_all add: neighbors_def kwargs_get_k_def ring_particles ring_heap
      tree_collaborators_sel ring_padded_query)

lemma ring_endpoint_distances:
  "endpoint_distance tree_collaborators ring_replicated 2 2 = 0"
  "endpoint_distance tree_collaborators ring_replicated 2 5 = 2"
  "endpoint_distance tree_collaborators ring_replicated 2 3 = 8"
  "endpoint_distance tree_collaborators ring_replicated 3 3 = 0"
  "endpoint_distance tree_collaborators ring_replicated 3 4 = 2"
  by (simp_all add: endpoint_distance_def tree_collaborators_sel ring_replicated_self ring_heap
      mic_distance_x mic_axis_values)

text \<open>
  C1, as the code has it. After a successful tiling with some count above 1, take a bond
  of the replicated structure whose pair of template indices is in the Periodic Bond Set.
  If its minimum-image distance does not exceed \<open>dist_thresh\<close>, the bond itself is in the
  final structure. Otherwise each endpoint is, in the final structure, bonded to the
  particle that \<open>_find_particle_image\<close> returned for it: one of the neighbours retrieved
  for the endpoint, with the template index of the other endpoint. When the neighbours
  were retrieved in ascending minimum-image distance from the endpoint, no retrieved
  neighbour with that template index is closer, so the new bond is within \<open>dist_thresh\<close>
  as soon as one retrieved neighbour with that template index is. The length of the new
  bond is not compared with \<open>dist_thresh\<close>, and it can be longer.
\<close>

theorem C1_rewired_bonds:
  assumes ok: "TiledCompound_init cb w0 n kw = Inr w'"
      and chk: "init_checks cb w0 n = Inr (w, b)" and n1: "\<not> all_one n"
      and sym: "\<forall>s u v. min_periodic_distance cb s u v = min_periodic_distance cb s v u"
      and e: "(p1, p2) \<in> set (bond_graph (self (replicate_tiles w b n)))"
      and pb: "(index (heap (replicate_tiles w b n) p1), index (heap (replicate_tiles w b n) p2))
                 \<in> repair_periodic_bonds (replicate_tiles w b n) b
               \<or> (index (heap (replicate_tiles w b n) p2), index (heap (replicate_tiles w b n) p1))
                 \<in> repair_periodic_bonds (replicate_tiles w b n) b"
  shows "if exceeds (min_periodic_distance cb (self (replicate_tiles w b n))
                       (pos (heap (replicate_tiles w b n) p1))
                       (pos (heap (replicate_tiles w b n) p2)))
                    (repair_thresh (replicate_tiles w b n) b)
         then \<exists>image2 image1.
                image_of cb (replicate_tiles w b n) kw p1 p2 = Inr image2
              \<and> image_of cb (replicate_tiles w b n) kw p2 p1 = Inr image1
              \<and> index (heap (replicate_tiles w b n) image2) = index (heap (replicate_tiles w b n) p2)
              \<and> index (heap (replicate_tiles w b n) image1) = index (heap (replicate_tiles w b n) p1)
              \<and> has_bond (bond_graph (self w')) (p1, image2)
              \<and> has_bond (bond_graph (self w')) (p2, image1)
              \<and> image2 \<in> set (neighbors cb (replicate_tiles w b n) kw p1)
              \<and> image1 \<in> set (neighbors cb (replicate_tiles w b n) kw p2)
              \<and> (sorted (map (endpoint_distance cb (replicate_tiles w b n) p1)
                           (neighbors cb (replicate_tiles w b n) kw p1)) \<longrightarrow>
                  (\<forall>c \<in> set (neighbors cb (replicate_tiles w b n) kw p1).
                     index (heap (replicate_tiles w b n) c) = index (heap (replicate_tiles w b n) p2) \<longrightarrow>
                       endpoint_distance cb (replicate_tiles w b n) p1 image2
                         \<le> endpoint_distance cb (replicate_tiles w b n) p1 c
                     \<and> (\<not> exceeds (endpoint_distance cb (replicate_tiles w b n) p1 c)
                              (repair_thresh (replicate_tiles w b n) b) \<longrightarrow>
                        \<not> exceeds (endpoint_distance cb (replicate_tiles w b n) p1 image2)
                              (repair_thresh (replicate_tiles w b n) b))))
              \<and> (sorted (map (endpoint_distance cb (replicate_tiles w b n) p2)
                           (neighbors cb (replicate_tiles w b n) kw p2)) \<longrightarrow>
                  (\<forall>c \<in> set (neighbors cb (replicate_tiles w b n) kw p2).
                     index (heap (replicate_tiles w b n) c) = index (heap (replicate_tiles w b n) p1) \<longrightarrow>
                       endpoint_distance cb (replicate_tiles w b n) p2 image1
                         \<le> endpoint_distance cb (replicate_tiles w b n) p2 c
                     \<and> (\<not> exceeds (endpoint_distance cb (replicate_tiles w b n) p2 c)
                              (repair_thresh (replicate_tiles w b n) b) \<longrightarrow>
                        \<not> exceeds (endpoint_distance cb (replicate_tiles w b n) p2 image1)
                              (repair_thresh (replicate_tiles w b n) b))))
         else (p1, p2) \<in> set (bond_graph (self w'))"
proof (cases rule: init_success_cases [OF ok])
  case (1 w1 b1)
  with n1 show ?thesis by simp
next
  case (2 w1 b1 to_remove to_add)
  from 2(1) chk have eq: "w1 = w" "b1 = b" by simp_all
  note sc = 2(3) [unfolded eq]
  let ?wr = "replicate_tiles w b n"
  let ?thr = "repair_thresh ?wr b"
  have bg: "bond_graph (self w') =
      fold add_bond to_add (fold remove_bond to_remove (bond_graph (self ?wr)))"
    by (simp add: 2(4) eq)
  show ?thesis
  proof (cases "exceeds (min_periodic_distance cb (self ?wr) (pos (heap ?wr p1)) (pos (heap ?wr p2)))
                    ?thr")
    case True
    with pb have need: "needs_rewiring cb ?wr b (p1, p2)"
      by (simp add: needs_rewiring_def rewire_cond_def)
    from repair_scan_images [OF sc e need]
    obtain i2 i1 where i: "image_of cb ?wr kw p1 p2 = Inr i2" "image_of cb ?wr kw p2 p1 = Inr i1"
      "has_bond to_add (p1, i2)" "has_bond to_add (p2, i1)" by blast
    have idx: "index (heap ?wr i2) = index (heap ?wr p2)" "index (heap ?wr i1) = index (heap ?wr p1)"
      using i(1,2) find_particle_image_index unfolding image_of_def by blast+
    have hb: "has_bond (bond_graph (self w')) (p1, i2)" "has_bond (bond_graph (self w')) (p2, i1)"
      unfolding bg using i(3,4) has_bond_fold_add by blast+
    note n2 = image_of_nearest [OF i(1)] and n1' = image_of_nearest [OF i(2)]
    have near2: "sorted (map (endpoint_distance cb ?wr p1) (neighbors cb ?wr kw p1)) \<longrightarrow>
                  (\<forall>c \<in> set (neighbors cb ?wr kw p1).
                     index (heap ?wr c) = index (heap ?wr p2) \<longrightarrow>
                       endpoint_distance cb ?wr p1 i2 \<le> endpoint_distance cb ?wr p1 c
                     \<and> (\<not> exceeds (endpoint_distance cb ?wr p1 c) ?thr \<longrightarrow>
                        \<not> exceeds (endpoint_distance cb ?wr p1 i2) ?thr))"
      using n2(2) exceeds_mono by blast
    have near1: "sorted (map (endpoint_distance cb ?wr p2) (neighbors cb ?wr kw p2)) \<longrightarrow>
                  (\<forall>c \<in> set (neighbors cb ?wr kw p2).
                     index (heap ?wr c) = index (heap ?wr p1) \<longrightarrow>
                       endpoint_distance cb ?wr p2 i1 \<le> endpoint_distance cb ?wr p2 c
                     \<and> (\<not> exceeds (endpoint_distance cb ?wr p2 c) ?thr \<longrightarrow>
                        \<not> exceeds (endpoint_distance cb ?wr p2 i1) ?thr))"
      using n1'(2) exceeds_mono by blast
    from i(1,2) idx hb n2(1) n1'(1) near2 near1 True show ?thesis
      by (simp only: if_True) blast
  next
    case False
    then have "\<not> needs_rewiring cb ?wr b (p1, p2)"
      by (simp add: needs_rewiring_def rewire_cond_def)
    from untouched_bond_stays [OF sc sym e this] False show ?thesis unfolding bg by simp
  qed
qed

text \<open>
  The ring tiled twice with \<open>k = 2\<close>: the bond from 1 to 9 is cut, particle 2 is bonded
  to particle 5, two away across the boundary, and particle 3 to particle 4.
\<close>

theorem C1_rewired_bonds_witness:
  "TiledCompound_init tree_collaborators ring_world (2, 1, 1) [(''k'', 2)] =
     Inr (ring_replicated
            \<lparr>self := (self ring_replicated)\<lparr>bond_graph := [(3, 4), (2, 5)]\<rparr>,
             heap := clear_indices (heap ring_replicated) [2, 3, 4, 5],
             particle_kdtree := None\<rparr>)
   \<and> init_checks tree_collaborators ring_world (2, 1, 1) = Inr (ring_checked, cube 10 10 10)
   \<and> \<not> all_one (2, 1, 1)
   \<and> (\<forall>s u v. min_periodic_distance tree_collaborators s u v
                 = min_periodic_distance tree_collaborators s v u)
   \<and> (2, 3) \<in> set (bond_graph (self (replicate_tiles ring_checked (cube 10 10 10) (2, 1, 1))))
   \<and> (index (heap (replicate_tiles ring_checked (cube 10 10 10) (2, 1, 1)) 2),
       index (heap (replicate_tiles ring_checked (cube 10 10 10) (2, 1, 1)) 3))
        \<in> repair_periodic_bonds (replicate_tiles ring_checked (cube 10 10 10) (2, 1, 1))
             (cube 10 10 10)
   \<and> exceeds (min_periodic_distance tree_collaborators
                (self (replicate_tiles ring_checked (cube 10 10 10) (2, 1, 1)))
                (pos (heap (replicate_tiles ring_checked (cube 10 10 10) (2, 1, 1)) 2))
                (pos (heap (replicate_tiles ring_checked (cube 10 10 10) (2, 1, 1)) 3)))
             (repair_thresh (replicate_tiles ring_checked (cube 10 10 10) (2, 1, 1))
                (cube 10 10 10))
   \<and> image_of tree_collaborators (replicate_tiles ring_checked (cube 10 10 10) (2, 1, 1))
        [(''k'', 2)] 2 3 = Inr 5
   \<and> image_of tree_collaborators (replicate_tiles ring_checked (cube 10 10 10) (2, 1, 1))
        [(''k'', 2)] 3 2 = Inr 4
   \<and> has_bond (bond_graph (self (final
         (TiledCompound_init tree_collaborators ring_world (2, 1, 1) [(''k'', 2)])))) (2, 5)
   \<and> has_bond (bond_graph (self (final
         (TiledCompound_init tree_collaborators ring_world (2, 1, 1) [(''k'', 2)])))) (3, 4)
   \<and> neighbors tree_collaborators (replicate_tiles ring_checked (cube 10 10 10) (2, 1, 1))
        [(''k'', 2)] 2 = [2, 5]
   \<and> sorted (map (endpoint_distance tree_collaborators
                    (replicate_tiles ring_checked (cube 10 10 10) (2, 1, 1)) 2)
              (neighbors tree_collaborators
                 (replicate_tiles ring_checked (cube 10 10 10) (2, 1, 1)) [(''k'', 2)] 2))
   \<and> endpoint_distance tree_collaborators
        (replicate_tiles ring_checked (cube 10 10 10) (2, 1, 1)) 2 5 = 2
   \<and> repair_thresh (replicate_tiles ring_checked (cube 10 10 10) (2, 1, 1)) (cube 10 10 10)
       = Fin 5"
  using C1_rewired_bonds [OF ring_init_k2 ring_checks_tree _ tree_distance_sym, of 2 3]
    tree_distance_sym [unfolded tree_collaborators_sel]
  by (simp add: ring_init_k2 ring_checks_tree all_one_def
      ring_replicated_def [symmetric] ring_replicated_self ring_heap ring_periodic_bonds
      ring_thresh ring_images_k2 tree_collaborators_sel mic_distance_x mic_axis_values
      final_def has_bond_def ring_neighbors_k2 ring_endpoint_distances)

text \<open>
  The skew tile tiled twice along x with \<open>k = 2\<close>. Its bond is in the Periodic Bond Set
  and longer than the cutoff 10.5, so both replicated bonds are removed. The nearest
  particle with the partner's template index is the partner's copy in the other replica,
  13 away, and the tree, whose search reaches 21, finds it. The call returns, and both
  bonds of the final structure have the minimum-image length 13, above the cutoff.
\<close>

theorem C1_long_bond_counterexample:
  "raised (TiledCompound_init tree_collaborators skew_world (2, 1, 1) [(''k'', 2)]) = None
   \<and> bond_graph (self (final (TiledCompound_init tree_collaborators skew_world (2, 1, 1)
        [(''k'', 2)]))) = [(3, 4), (2, 5)]
   \<and> (2, 3) \<in> set (bond_graph (self (replicate_tiles skew_checked (cube 21 30 30) (2, 1, 1))))
   \<and> index (heap (replicate_tiles skew_checked (cube 21 30 30) (2, 1, 1)) 2) = Some 0
   \<and> index (heap (replicate_tiles skew_checked (cube 21 30 30) (2, 1, 1)) 3) = Some 1
   \<and> repair_periodic_bonds (replicate_tiles skew_checked (cube 21 30 30) (2, 1, 1))
        (cube 21 30 30) = {(Some 0, Some 1)}
   \<and> repair_thresh (replicate_tiles skew_checked (cube 21 30 30) (2, 1, 1)) (cube 21 30 30)
       = Fin (21 / 2)
   \<and> endpoint_distance tree_collaborators
        (final (TiledCompound_init tree_collaborators skew_world (2, 1, 1) [(''k'', 2)])) 2 5 = 13
   \<and> endpoint_distance tree_collaborators
        (final (TiledCompound_init tree_collaborators skew_world (2, 1, 1) [(''k'', 2)])) 3 4 = 13
   \<and> exceeds 13 (Fin (21 / 2))"
  unfolding skew_final
  by (simp add: skew_init raised_def skew_replicated_def [symmetric]
      skew_periodic_bonds skew_thresh skew_heap clear_indices_apply skew_replicated_self
      endpoint_distance_def tree_collaborators_sel skew_distances)

subsection \<open>The lookup on an answer that the tree has filled up\<close>

text \<open>
  C4, at an input where the code does otherwise. The ring tiled twice with no \<open>k\<close>
  given, so that \<open>k\<close> is 10: the tree finds three particles within its reach of
  particle 2 and fills its answer with the number of particles, 4. The fourth particle of
  the structure, an image of particle 3, is among the neighbours retrieved, yet
  \<open>all_particles[idxs]\<close> on line 152 raises \<open>IndexError\<close> before the neighbours are looked
  at, and the constructor raises \<open>IndexError\<close>, not \<open>MBuildError\<close>.
\<close>

theorem C4_index_error_on_padded_answer:
  "kwargs_get_k [] = 10
   \<and> kd_query tree_collaborators (build_kdtree ring_replicated) (pos (heap ring_replicated 2))
        (kwargs_get_k []) = [0, 3, 1, 4, 4, 4, 4, 4, 4, 4]
   \<and> particles (heap ring_replicated) (self ring_replicated) False = [2, 3, 4, 5]
   \<and> index (heap ring_replicated ([2, 3, 4, 5] ! 3)) = index (heap ring_replicated 3)
   \<and> find_particle_image tree_collaborators (heap ring_replicated) (build_kdtree ring_replicated)
        2 3 [2, 3, 4, 5] [] = Inl IndexError
   \<and> raised (TiledCompound_init tree_collaborators ring_world (2, 1, 1) []) = Some IndexError"
  using ring_image_padded [unfolded image_of_def ring_particles]
  by (simp add: kwargs_get_k_def tree_collaborators_sel ring_heap ring_padded_query
      ring_particles ring_init_padded raised_def)

text \<open>
  C10, at the same input. Two particles with the template index of particle 3 are
  retrieved for particle 2: particle 5 at distance 2 and particle 3 itself at distance 8.
  The nearer one is not returned: the lookup raises \<open>IndexError\<close>.
\<close>

theorem C10_nearest_image_not_returned:
  "kd_query tree_collaborators (build_kdtree ring_replicated) (pos (heap ring_replicated 2))
        (kwargs_get_k []) = [0, 3, 1, 4, 4, 4, 4, 4, 4, 4]
   \<and> [2, 3, 4, 5] ! 3 = (5 :: nat) \<and> [2, 3, 4, 5] ! 1 = (3 :: nat)
   \<and> index (heap ring_replicated 5) = index (heap ring_replicated 3)
   \<and> endpoint_distance tree_collaborators ring_replicated 2 5 = 2
   \<and> endpoint_distance tree_collaborators ring_replicated 2 3 = 8
   \<and> find_particle_image tree_collaborators (heap ring_replicated) (build_kdtree ring_replicated)
        2 3 [2, 3, 4, 5] [] = Inl IndexError"
  using ring_image_padded [unfolded image_of_def ring_particles]
  by (simp add: kwargs_get_k_def tree_collaborators_sel ring_heap ring_padded_query
      ring_endpoint_distances)

end
